theory Spec2Isabelle
  imports Main "HOL-Library.AList" "HOL-Library.Char_ord" "HOL-Library.List_Lexorder"
begin

section \<open>Values, errors and the interpreter's builtins\<close>

text \<open>
  The codec of the upload tool is Python. Strings are modelled as \<open>string\<close>, a
  \<open>char\<close> standing for one code point below 256; line numbers and column indices are
  \<open>nat\<close>, Python's unbounded integers are \<open>int\<close>.

  Floats and datetimes are only ever created by the builtins \<^verbatim>\<open>float()\<close> and
  \<^verbatim>\<open>datetime.datetime.fromisoformat()\<close> and printed by \<^verbatim>\<open>str()\<close>; integers are
  parsed by \<^verbatim>\<open>int()\<close>. These belong to the interpreter, not to the repository, so they
  are parameters of the model: \<open>'f\<close> is the type of floats, \<open>'d\<close> the type of datetimes,
  and a parser returns \<open>None\<close> where the builtin raises \<^verbatim>\<open>ValueError\<close>.
\<close>

record ('f, 'd) builtins =
  py_int :: "string \<Rightarrow> int option"
  py_float :: "string \<Rightarrow> 'f option"
  py_fromisoformat :: "string \<Rightarrow> 'd option"

text \<open>
  What a decoded field can hold. An object is its attribute dictionary, in insertion
  order; an enum member is named by its member name.
\<close>

datatype ('f, 'd) pyval =
    VNone
  | VStr string
  | VInt int
  | VFloat 'f
  | VDateTime 'd
  | VEnum string
  | VBool bool
  | VList "('f, 'd) pyval list"
  | VObj "(string \<times> ('f, 'd) pyval) list"

text \<open>
  Every failure of the reader is a \<^verbatim>\<open>CSVException\<close> whose message is one of the
  following; the constructors keep the line number, column name and value that the message
  is formatted from. The last constructors are the exceptions of the interpreter itself
  that the code can run into.
\<close>

datatype error =
    DuplicateColumnName string
  | EmptyOKNotString string
  | UnknownRelatedColumn string
  | UnknownIdentifierColumn string
  | UnknownArrayColumn string
  | UnknownArrayPrefix string
  | UnknownColumn string
  | RequiredColumnMissing string
  | WrongColumnCount nat nat nat
  | RelatedColumnsNotAllSet nat "string list"
  | DuplicateIdentifier nat string
  | ArrayColumnsNotSupported nat
  | NotAllowedInContinuation nat string
  | OnlyOneArrayGroup nat "string list"
  | NoArrayGroup nat "string list"
  | ColumnEmpty nat string
  | NotAnInteger nat string string
  | NotAFloat nat string string
  | NotADatetime nat string string
  | NotAMember nat string "string list" string
  | NotInSet nat string string
  | NotABoolean nat string string
  | UnknownColumnType nat
  | NoColumnsFound string
  | StopIteration
  | KeyError string
  | AttributeError string
  | TypeError
  | IndexError
  | NameError

text \<open>Sequencing of fallible steps: the first exception ends the computation.\<close>

definition andthen :: "error + 'a \<Rightarrow> ('a \<Rightarrow> error + 'b) \<Rightarrow> error + 'b" where
  "andthen m f = (case m of Inl e \<Rightarrow> Inl e | Inr x \<Rightarrow> f x)"

fun foldE :: "('a \<Rightarrow> 's \<Rightarrow> error + 's) \<Rightarrow> 'a list \<Rightarrow> 's \<Rightarrow> error + 's" where
  "foldE f [] s = Inr s"
| "foldE f (x # xs) s = (case f x s of Inl e \<Rightarrow> Inl e | Inr s' \<Rightarrow> foldE f xs s')"

section \<open>string_tools.py and the string methods used\<close>

definition isspace :: "char \<Rightarrow> bool" where
  "isspace c = (of_char c \<in> {9, 10, 11, 12, 13, 28, 29, 30, 31, 32, 133, 160 :: nat})"

definition strip :: "string \<Rightarrow> string" where
  "strip s = rev (dropWhile isspace (rev (dropWhile isspace s)))"

fun split_from :: "string \<Rightarrow> string \<Rightarrow> string list" where
  "split_from cur [] = (if cur = [] then [] else [cur])"
| "split_from cur (c # cs) =
     (if isspace c then (if cur = [] then split_from [] cs else cur # split_from [] cs)
      else split_from (cur @ [c]) cs)"

definition split :: "string \<Rightarrow> string list" where
  "split s = split_from [] s"

fun join :: "string \<Rightarrow> string list \<Rightarrow> string" where
  "join sep [] = []"
| "join sep [x] = x"
| "join sep (x # y # ys) = x @ sep @ join sep (y # ys)"

definition collapse :: "string \<Rightarrow> string" where
  "collapse s = join '' '' (split s)"

definition lower_char :: "char \<Rightarrow> char" where
  "lower_char c =
     (if 65 \<le> (of_char c :: nat) \<and> (of_char c :: nat) \<le> 90 then char_of (of_char c + (32::nat)) else c)"

definition lower :: "string \<Rightarrow> string" where
  "lower s = map lower_char s"

definition replace_char :: "char \<Rightarrow> char \<Rightarrow> string \<Rightarrow> string" where
  "replace_char a b s = map (\<lambda>c. if c = a then b else c) s"

definition startswith :: "string \<Rightarrow> string \<Rightarrow> bool" where
  "startswith s p = (take (length p) s = p)"

definition endswith :: "string \<Rightarrow> string \<Rightarrow> bool" where
  "endswith s p = (length p \<le> length s \<and> drop (length s - length p) s = p)"

section \<open>csv\_tools.py: columns and array groups\<close>

datatype empty_policy = NotOK | ToNone | OK | Default string

datatype column_type =
    TStr | TInt | TFloat | TDateTime | TEnum "string list" | TSet "string list" | TBool | TOther

record column =
  column_name :: string
  column_type :: column_type
  empty :: empty_policy
  optional :: bool
  destination_name :: string
  destination_name_provided :: bool

definition valid_attribute_char :: "char \<Rightarrow> bool" where
  "valid_attribute_char c =
     (let n = (of_char c :: nat)
      in (97 \<le> n \<and> n \<le> 122) \<or> (65 \<le> n \<and> n \<le> 90) \<or> (48 \<le> n \<and> n \<le> 57) \<or> n = 95)"

definition isdigit :: "char \<Rightarrow> bool" where
  "isdigit c = (48 \<le> (of_char c :: nat) \<and> (of_char c :: nat) \<le> 57)"

text \<open>\<^verbatim>\<open>re_invalid_object_attribute_chars.sub( "_", name )\<close>: every maximal run of
  characters outside \<^verbatim>\<open>[a-zA-Z0-9_]\<close> becomes one underscore.\<close>

fun sub_invalid_from :: "bool \<Rightarrow> string \<Rightarrow> string" where
  "sub_invalid_from in_run [] = []"
| "sub_invalid_from in_run (c # cs) =
     (if valid_attribute_char c then c # sub_invalid_from False cs
      else if in_run then sub_invalid_from True cs
      else CHR ''_'' # sub_invalid_from True cs)"

definition sub_invalid :: "string \<Rightarrow> string" where
  "sub_invalid s = sub_invalid_from False s"

definition make_attribute_name :: "string \<Rightarrow> error + string" where
  "make_attribute_name name =
     (case sub_invalid name of
        [] \<Rightarrow> Inl IndexError
      | c # cs \<Rightarrow> Inr (if isdigit c then CHR ''_'' # c # cs else c # cs))"

definition Column :: "string \<Rightarrow> column_type \<Rightarrow> empty_policy \<Rightarrow> bool \<Rightarrow> string option \<Rightarrow> error + column" where
  "Column name ty emp opt dest =
     (case dest of
        Some d \<Rightarrow>
          Inr \<lparr>column_name = name, column_type = ty, empty = emp, optional = opt,
               destination_name = d, destination_name_provided = True\<rparr>
      | None \<Rightarrow>
          andthen (make_attribute_name name) (\<lambda>d.
            Inr \<lparr>column_name = name, column_type = ty, empty = emp, optional = opt,
                 destination_name = d, destination_name_provided = False\<rparr>))"

definition column_name_for_array_object :: "column \<Rightarrow> nat \<Rightarrow> error + string" where
  "column_name_for_array_object col prefixlen =
     (if destination_name_provided col then Inr (destination_name col)
      else make_attribute_name (drop prefixlen (column_name col)))"

record ('f, 'd) array_group =
  name :: string
  prefix :: "string option"
  make_type :: "(string \<times> ('f, 'd) pyval) list option"

text \<open>\<^verbatim>\<open>_create_array_object\<close>: \<open>VNone\<close> for a single-column group, otherwise a fresh
  object: an empty namespace, or what the constructor \<open>make_type\<close> builds.\<close>

definition create_array_object :: "('f, 'd) array_group \<Rightarrow> ('f, 'd) pyval" where
  "create_array_object ag =
     (case prefix ag of
        None \<Rightarrow> VNone
      | Some p \<Rightarrow> (case make_type ag of None \<Rightarrow> VObj [] | Some attrs \<Rightarrow> VObj attrs))"

section \<open>The conversion of one cell\<close>

text \<open>Lines 377 to 389 of \<^verbatim>\<open>read_header_csv_with_reader\<close>: the empty handling. The
  result is the value that goes on to the type conversion (\<open>None\<close> for Python's
  \<^verbatim>\<open>None\<close>) and the flag \<^verbatim>\<open>is_empty\<close>.\<close>

definition empty_handling :: "nat \<Rightarrow> column \<Rightarrow> string \<Rightarrow> error + (string option \<times> bool)" where
  "empty_handling line col v =
     (if v = [] then
        (case empty col of
           NotOK \<Rightarrow> Inl (ColumnEmpty line (column_name col))
         | ToNone \<Rightarrow> Inr (None, True)
         | OK \<Rightarrow> Inr (Some v, True)
         | Default d \<Rightarrow> Inr (Some d, True))
      else Inr (Some v, False))"

text \<open>Lines 391 to 430: the type conversion, skipped for \<^verbatim>\<open>None\<close>.\<close>

definition type_conversion ::
  "('f, 'd) builtins \<Rightarrow> nat \<Rightarrow> column \<Rightarrow> string option \<Rightarrow> error + ('f, 'd) pyval" where
  "type_conversion B line col v =
     (case v of
        None \<Rightarrow> Inr VNone
      | Some s \<Rightarrow>
          (case column_type col of
             TStr \<Rightarrow> Inr (VStr s)
           | TInt \<Rightarrow>
               (case py_int B s of
                  None \<Rightarrow> Inl (NotAnInteger line (column_name col) s)
                | Some n \<Rightarrow> Inr (VInt n))
           | TFloat \<Rightarrow>
               (case py_float B (replace_char CHR '','' CHR ''.'' s) of
                  None \<Rightarrow> Inl (NotAFloat line (column_name col) s)
                | Some x \<Rightarrow> Inr (VFloat x))
           | TDateTime \<Rightarrow>
               (case py_fromisoformat B s of
                  None \<Rightarrow> Inl (NotADatetime line (column_name col) s)
                | Some d \<Rightarrow> Inr (VDateTime d))
           | TEnum members \<Rightarrow>
               (if s \<in> set members then Inr (VEnum s)
                else Inl (NotAMember line (column_name col) members s))
           | TSet allowed \<Rightarrow>
               (if s \<in> set allowed then Inr (VStr s)
                else Inl (NotInSet line (column_name col) s))
           | TBool \<Rightarrow>
               (let vl = lower s
                in if vl \<in> set [''1'', ''true''] then Inr (VBool True)
                   else if vl \<in> set [''0'', ''false''] then Inr (VBool False)
                   else Inl (NotABoolean line (column_name col) s))
           | TOther \<Rightarrow> Inl (UnknownColumnType line)))"

definition convert_cell ::
  "('f, 'd) builtins \<Rightarrow> nat \<Rightarrow> column \<Rightarrow> string \<Rightarrow> error + (('f, 'd) pyval \<times> bool)" where
  "convert_cell B line col v =
     andthen (empty_handling line col v) (\<lambda>(v', is_empty).
       andthen (type_conversion B line col v') (\<lambda>converted_value.
         Inr (converted_value, is_empty)))"

section \<open>Objects\<close>

text \<open>An object is its attribute dictionary. \<^verbatim>\<open>setattr\<close> keeps the position of an
  attribute that exists and adds a new one at the end, as a Python dictionary does;
  \<^verbatim>\<open>getattr\<close> raises \<^verbatim>\<open>AttributeError\<close> for a missing attribute.\<close>

definition setattr :: "('f, 'd) pyval \<Rightarrow> string \<Rightarrow> ('f, 'd) pyval \<Rightarrow> error + ('f, 'd) pyval" where
  "setattr obj n v =
     (case obj of VObj attrs \<Rightarrow> Inr (VObj (AList.update n v attrs)) | _ \<Rightarrow> Inl (AttributeError n))"

definition getattr :: "('f, 'd) pyval \<Rightarrow> string \<Rightarrow> error + ('f, 'd) pyval" where
  "getattr obj n =
     (case obj of
        VObj attrs \<Rightarrow> (case map_of attrs n of None \<Rightarrow> Inl (AttributeError n) | Some v \<Rightarrow> Inr v)
      | _ \<Rightarrow> Inl (AttributeError n))"

text \<open>\<^verbatim>\<open>l = getattr( dest, n ); l.append( v )\<close>: the list is the one the attribute holds, so
  the object sees the new element.\<close>

definition append_attr :: "('f, 'd) pyval \<Rightarrow> string \<Rightarrow> ('f, 'd) pyval \<Rightarrow> error + ('f, 'd) pyval" where
  "append_attr obj n v =
     andthen (getattr obj n) (\<lambda>l.
       case l of VList xs \<Rightarrow> setattr obj n (VList (xs @ [v])) | _ \<Rightarrow> Inl (AttributeError ''append''))"

section \<open>csv\_tools.py: the arguments of the reader and its checks\<close>

text \<open>
  The members of a set of related columns are annotated as \<^verbatim>\<open>Column\<close> objects, and
  \<^verbatim>\<open>convert_csv.convert\<close> passes column names; Python accepts both, so both are values
  of the model. \<^verbatim>\<open>make_objects\<close> is \<^verbatim>\<open>False\<close>, \<^verbatim>\<open>True\<close> or a class, given by the
  attributes its constructor sets. A set is iterated in some order: it is a list here.
\<close>

datatype related_member = ByName string | ByColumn column

datatype ('f, 'd) make_objects_arg =
  MakeFalse | MakeTrue | MakeType "(string \<times> ('f, 'd) pyval) list"

datatype space_handling = Keep | Strip | Collapse

record ('f, 'd) reader_args =
  header :: "column list"
  make_objects :: "('f, 'd) make_objects_arg"
  space_handling :: space_handling
  ignore_unknown_columns :: bool
  related_columns :: "related_member list list"
  identifier_column :: "string option"
  array_groups :: "('f, 'd) array_group list"

definition header_dict :: "column list \<Rightarrow> (string \<rightharpoonup> column)" where
  "header_dict hs = fold (\<lambda>c m. m(column_name c \<mapsto> c)) hs Map.empty"

text \<open>1. Check if all columns are unique.\<close>

fun check_unique :: "string set \<Rightarrow> column list \<Rightarrow> error + unit" where
  "check_unique tmp [] = Inr ()"
| "check_unique tmp (c # cs) =
     (if column_name c \<in> tmp then Inl (DuplicateColumnName (column_name c))
      else check_unique (insert (column_name c) tmp) cs)"

text \<open>2. \<^verbatim>\<open>Empty.OK\<close> is only used for string columns.\<close>

fun check_empty_ok :: "column list \<Rightarrow> error + unit" where
  "check_empty_ok [] = Inr ()"
| "check_empty_ok (c # cs) =
     (if empty c = OK \<and> column_type c \<noteq> TStr then Inl (EmptyOKNotString (column_name c))
      else check_empty_ok cs)"

text \<open>3. Related columns and the identifier column are columns of the header. The test is
  \<^verbatim>\<open>c not in header_dict\<close>, a dictionary keyed by names: a \<^verbatim>\<open>Column\<close> object is never a
  key of it, and for a name that is missing the message's \<^verbatim>\<open>c.column_name\<close> raises
  \<^verbatim>\<open>AttributeError\<close>.\<close>

definition check_related_member :: "(string \<rightharpoonup> column) \<Rightarrow> related_member \<Rightarrow> error + unit" where
  "check_related_member hdict m =
     (case m of
        ByName s \<Rightarrow> (if hdict s = None then Inl (AttributeError ''column_name'') else Inr ())
      | ByColumn c \<Rightarrow> Inl (UnknownRelatedColumn (column_name c)))"

definition check_related_columns :: "(string \<rightharpoonup> column) \<Rightarrow> related_member list list \<Rightarrow> error + unit" where
  "check_related_columns hdict rcss = foldE (\<lambda>m u. check_related_member hdict m) (concat rcss) ()"

definition check_identifier_column :: "(string \<rightharpoonup> column) \<Rightarrow> string option \<Rightarrow> error + unit" where
  "check_identifier_column hdict ic =
     (case ic of
        None \<Rightarrow> Inr ()
      | Some n \<Rightarrow> (if hdict n = None then Inl (UnknownIdentifierColumn n) else Inr ()))"

text \<open>The mapping from array column name to the index of its array group.\<close>

definition array_group_columns ::
  "(string \<rightharpoonup> column) \<Rightarrow> column list \<Rightarrow> nat \<times> ('f, 'd) array_group \<Rightarrow> (string \<rightharpoonup> nat)
     \<Rightarrow> error + (string \<rightharpoonup> nat)" where
  "array_group_columns hdict hs ia m =
     (case ia of (ag_index, ag) \<Rightarrow>
        (case prefix ag of
           None \<Rightarrow>
             (if hdict (name ag) = None then Inl (UnknownArrayColumn (name ag))
              else Inr (m(name ag \<mapsto> ag_index)))
         | Some p \<Rightarrow>
             (let matching = filter (\<lambda>h. startswith (column_name h) p) hs
              in if matching = [] then Inl (UnknownArrayPrefix p)
                 else Inr (fold (\<lambda>h m. m(column_name h \<mapsto> ag_index)) matching m))))"

definition make_array_column_name_to_array_index ::
  "(string \<rightharpoonup> column) \<Rightarrow> column list \<Rightarrow> ('f, 'd) array_group list \<Rightarrow> error + (string \<rightharpoonup> nat)" where
  "make_array_column_name_to_array_index hdict hs ags =
     foldE (array_group_columns hdict hs) (enumerate 0 ags) Map.empty"

section \<open>csv\_tools.py: the header line\<close>

text \<open>
  What the reader has computed when it starts on the data rows. The dictionaries that are
  iterated or returned are association lists in insertion order. \<open>column_to_column_index\<close>
  is keyed by \<^verbatim>\<open>Column\<close> objects, which Python compares by identity; its keys are columns of
  the header, whose names are pairwise different by then, so comparing the records is
  the same.
\<close>

record ('f, 'd) env =
  args :: "('f, 'd) reader_args"
  array_column_name_to_array_index :: "string \<rightharpoonup> nat"
  header_field_count :: nat
  column_to_column_index :: "(column \<times> nat) list"
  column_index_to_column :: "(nat \<times> column) list"
  column_name_to_index :: "(string \<times> nat) list"
  identifier_column_index :: "nat option"

type_synonym column_maps = "(column \<times> nat) list \<times> (nat \<times> column) list \<times> (string \<times> nat) list"

definition header_line_step ::
  "(string \<rightharpoonup> column) \<Rightarrow> bool \<Rightarrow> nat \<times> string \<Rightarrow> column_maps \<Rightarrow> error + column_maps" where
  "header_line_step hdict ignore ic maps =
     (case ic of (col_nr, colname) \<Rightarrow>
        (case maps of (c2i, i2c, n2i) \<Rightarrow>
           (let colname_stripped = strip colname
            in case hdict colname_stripped of
                 Some c \<Rightarrow>
                   Inr (AList.update c col_nr c2i, i2c @ [(col_nr, c)],
                        AList.update colname_stripped col_nr n2i)
               | None \<Rightarrow> (if ignore then Inr maps else Inl (UnknownColumn colname)))))"

fun check_required :: "(column \<times> nat) list \<Rightarrow> column list \<Rightarrow> error + unit" where
  "check_required c2i [] = Inr ()"
| "check_required c2i (c # cs) =
     (if \<not> optional c \<and> map_of c2i c = None then Inl (RequiredColumnMissing (column_name c))
      else check_required c2i cs)"

definition lookup_identifier_column :: "(string \<times> nat) list \<Rightarrow> string option \<Rightarrow> error + nat option" where
  "lookup_identifier_column n2i ic =
     (case ic of
        None \<Rightarrow> Inr None
      | Some n \<Rightarrow> (case map_of n2i n of None \<Rightarrow> Inl (KeyError n) | Some i \<Rightarrow> Inr (Some i)))"

text \<open>Everything \<^verbatim>\<open>read_header_csv_with_reader\<close> does before its loop over the data rows,
  in the order of the source.\<close>

definition prepare :: "('f, 'd) reader_args \<Rightarrow> string list \<Rightarrow> error + ('f, 'd) env" where
  "prepare a headerline =
     (let hdict = header_dict (header a) in
      andthen (check_unique {} (header a)) (\<lambda>_.
      andthen (check_empty_ok (header a)) (\<lambda>_.
      andthen (check_related_columns hdict (related_columns a)) (\<lambda>_.
      andthen (check_identifier_column hdict (identifier_column a)) (\<lambda>_.
      andthen (make_array_column_name_to_array_index hdict (header a) (array_groups a)) (\<lambda>amap.
      andthen (foldE (header_line_step hdict (ignore_unknown_columns a))
                 (enumerate 0 headerline) ([], [], [])) (\<lambda>(c2i, i2c, n2i).
      andthen (check_required c2i (header a)) (\<lambda>_.
      andthen (lookup_identifier_column n2i (identifier_column a)) (\<lambda>ici.
        Inr \<lparr>args = a, array_column_name_to_array_index = amap,
             header_field_count = length headerline,
             column_to_column_index = c2i, column_index_to_column = i2c,
             column_name_to_index = n2i, identifier_column_index = ici\<rparr>)))))))))"

section \<open>csv\_tools.py: one data row\<close>

text \<open>
  The state of the loop over the data rows. \<open>dest\<close> of the source is the last element of
  \<open>result\<close>: it is appended when it is created, and a continuation line changes it through
  that reference.
\<close>

record ('f, 'd) state =
  line :: nat
  result :: "('f, 'd) pyval list"
  previous_identifier :: "string option"
  done_identifiers :: "string set"

definition initial_state :: "('f, 'd) state" where
  "initial_state = \<lparr>line = 1, result = [], previous_identifier = None, done_identifiers = {}\<rparr>"

text \<open>First: space handling, on the cells of the columns that were found in the header
  line. The row has \<open>header_field_count\<close> cells by then, so each index is in range.\<close>

definition handle_spaces :: "space_handling \<Rightarrow> string \<Rightarrow> string" where
  "handle_spaces sh v = (case sh of Keep \<Rightarrow> v | Strip \<Rightarrow> strip v | Collapse \<Rightarrow> collapse v)"

definition space_handled :: "('f, 'd) env \<Rightarrow> string list \<Rightarrow> string list" where
  "space_handled E row =
     fold (\<lambda>(col_nr, col) r. r[col_nr := handle_spaces (space_handling (args E)) (r ! col_nr)])
       (column_index_to_column E) row"

text \<open>The check of the related columns, lines 274 to 284. The membership test
  \<^verbatim>\<open>c in column_to_column_index\<close> is on a dictionary keyed by \<^verbatim>\<open>Column\<close> objects: a
  name is never one of its keys. The message joins the members as strings, which raises
  \<^verbatim>\<open>TypeError\<close> for a \<^verbatim>\<open>Column\<close> object.\<close>

definition empty_state_of :: "('f, 'd) env \<Rightarrow> string list \<Rightarrow> related_member \<Rightarrow> bool" where
  "empty_state_of E row m =
     (case m of
        ByName s \<Rightarrow> False
      | ByColumn c \<Rightarrow>
          (case map_of (column_to_column_index E) c of
             Some i \<Rightarrow> row ! i = []
           | None \<Rightarrow> False))"

definition member_name :: "related_member \<Rightarrow> string option" where
  "member_name m = (case m of ByName s \<Rightarrow> Some s | ByColumn c \<Rightarrow> None)"

definition check_related_row :: "('f, 'd) env \<Rightarrow> nat \<Rightarrow> string list \<Rightarrow> related_member list \<Rightarrow> unit
     \<Rightarrow> error + unit" where
  "check_related_row E ln row related u =
     (let empty_state = map (empty_state_of E row) related
      in if list_ex id empty_state \<and> \<not> list_all id empty_state then
           (if list_all (\<lambda>m. member_name m \<noteq> None) related
            then Inl (RelatedColumnsNotAllSet ln (map (\<lambda>m. the (member_name m)) related))
            else Inl TypeError)
         else Inr ())"

text \<open>New record or continuation line, lines 286 to 300: the flag \<^verbatim>\<open>newdest\<close> with the
  updated \<^verbatim>\<open>previous_identifier\<close> and \<^verbatim>\<open>done_identifiers\<close>.\<close>

definition determine_newdest ::
  "('f, 'd) env \<Rightarrow> ('f, 'd) state \<Rightarrow> nat \<Rightarrow> string list
     \<Rightarrow> error + (bool \<times> string option \<times> string set)" where
  "determine_newdest E st ln row =
     (case identifier_column_index E of
        None \<Rightarrow> Inr (True, previous_identifier st, done_identifiers st)
      | Some i \<Rightarrow>
          (let identifier = row ! i
           in if Some identifier \<noteq> previous_identifier st then
                (if identifier \<in> done_identifiers st then Inl (DuplicateIdentifier ln identifier)
                 else Inr (True, Some identifier, insert identifier (done_identifiers st)))
              else Inr (False, previous_identifier st, done_identifiers st)))"

text \<open>The cell conversion and the store of one column on a new record, lines 368 to 456.
  The state is \<open>dest\<close>, \<open>array_group_data\<close> and \<open>array_group_used\<close>.\<close>

type_synonym ('f, 'd) new_state = "('f, 'd) pyval \<times> ('f, 'd) pyval list \<times> bool list"

definition store_new :: "('f, 'd) env \<Rightarrow> column \<Rightarrow> ('f, 'd) pyval \<times> bool \<Rightarrow> ('f, 'd) new_state
     \<Rightarrow> error + ('f, 'd) new_state" where
  "store_new E col cv s =
     (case cv of (converted_value, is_empty) \<Rightarrow>
      (case s of (dest, array_group_data, array_group_used) \<Rightarrow>
        (case array_column_name_to_array_index E (column_name col) of
           None \<Rightarrow>
             (case make_objects (args E) of
                MakeFalse \<Rightarrow>
                  (case dest of
                     VList xs \<Rightarrow> Inr (VList (xs @ [converted_value]), array_group_data, array_group_used)
                   | _ \<Rightarrow> Inl (AttributeError ''append''))
              | _ \<Rightarrow>
                  andthen (setattr dest (destination_name col) converted_value) (\<lambda>d.
                    Inr (d, array_group_data, array_group_used)))
         | Some ag_index \<Rightarrow>
             (let ag = array_groups (args E) ! ag_index;
                  used = (if \<not> is_empty then array_group_used[ag_index := True] else array_group_used)
              in case prefix ag of
                   None \<Rightarrow> Inr (dest, array_group_data[ag_index := converted_value], used)
                 | Some p \<Rightarrow>
                     andthen (column_name_for_array_object col (length p)) (\<lambda>a.
                     andthen (setattr (array_group_data ! ag_index) a converted_value) (\<lambda>obj.
                       Inr (dest, array_group_data[ag_index := obj], used)))))))"

definition convert_new :: "('f, 'd) builtins \<Rightarrow> ('f, 'd) env \<Rightarrow> nat \<Rightarrow> string list \<Rightarrow> nat \<times> column
     \<Rightarrow> ('f, 'd) new_state \<Rightarrow> error + ('f, 'd) new_state" where
  "convert_new B E ln row ic s =
     (case ic of (col_nr, col) \<Rightarrow>
        andthen (convert_cell B ln col (row ! col_nr)) (\<lambda>cv. store_new E col cv s))"

text \<open>Lines 472 to 479: the array objects that received data go to their lists.\<close>

definition add_array_objects :: "('f, 'd) pyval list \<Rightarrow> bool list \<Rightarrow> nat \<times> ('f, 'd) array_group
     \<Rightarrow> ('f, 'd) pyval \<Rightarrow> error + ('f, 'd) pyval" where
  "add_array_objects array_group_data array_group_used ia dest =
     (case ia of (ag_index, ag) \<Rightarrow>
        (if \<not> array_group_used ! ag_index then Inr dest
         else append_attr dest (name ag) (array_group_data ! ag_index)))"

text \<open>Lines 302 to 331: the new record. The class \<open>make_objects\<close> is instantiated, or an empty
  namespace or list made.\<close>

definition create_dest :: "('f, 'd) env \<Rightarrow> nat \<Rightarrow> error + ('f, 'd) pyval" where
  "create_dest E ln =
     (case make_objects (args E) of
        MakeFalse \<Rightarrow>
          (if length (array_groups (args E)) > 0 then Inl (ArrayColumnsNotSupported ln)
           else Inr (VList []))
      | MakeTrue \<Rightarrow>
          foldE (\<lambda>ag d. setattr d (replace_char CHR ''.'' CHR ''_'' (name ag)) (VList []))
            (array_groups (args E)) (VObj [])
      | MakeType attrs \<Rightarrow>
          foldE (\<lambda>ag d. setattr d (replace_char CHR ''.'' CHR ''_'' (name ag)) (VList []))
            (array_groups (args E)) (VObj attrs))"

definition new_record :: "('f, 'd) builtins \<Rightarrow> ('f, 'd) env \<Rightarrow> nat \<Rightarrow> string list
     \<Rightarrow> ('f, 'd) pyval list \<Rightarrow> error + ('f, 'd) pyval list" where
  "new_record B E ln row res =
     andthen (create_dest E ln) (\<lambda>dest.
     andthen (foldE (convert_new B E ln row) (column_index_to_column E)
                (dest, map create_array_object (array_groups (args E)),
                 map (\<lambda>ag. False) (array_groups (args E)))) (\<lambda>(dest, array_group_data, array_group_used).
     andthen (foldE (add_array_objects array_group_data array_group_used)
                (enumerate 0 (array_groups (args E))) dest) (\<lambda>dest.
       Inr (res @ [dest]))))"

text \<open>Lines 332 to 354: the checks of a continuation line. The array groups that have
  data are kept by their index in \<open>array_groups\<close>, without repetition;
  \<open>current_array_columns\<close> holds the names of the array columns that are not empty.\<close>

definition check_continuation_cell :: "('f, 'd) env \<Rightarrow> nat \<Rightarrow> string list \<Rightarrow> nat \<times> column
     \<Rightarrow> nat list \<times> string set \<Rightarrow> error + (nat list \<times> string set)" where
  "check_continuation_cell E ln row ic s =
     (case ic of (col_nr, col) \<Rightarrow>
      (case s of (have_data_for_array, current_array_columns) \<Rightarrow>
        (if row ! col_nr = [] then Inr s
         else
           (case array_column_name_to_array_index E (column_name col) of
              Some ag_index \<Rightarrow>
                Inr (List.insert ag_index have_data_for_array,
                     insert (column_name col) current_array_columns)
            | None \<Rightarrow>
                (if Some col_nr \<noteq> identifier_column_index E
                 then Inl (NotAllowedInContinuation ln (column_name col))
                 else Inr s)))))"

definition check_continuation :: "('f, 'd) env \<Rightarrow> nat \<Rightarrow> string list \<Rightarrow> error + (nat \<times> string set)" where
  "check_continuation E ln row =
     andthen (foldE (check_continuation_cell E ln row) (column_index_to_column E) ([], {}))
       (\<lambda>(have_data_for_array, current_array_columns).
          if length have_data_for_array > 1
            then Inl (OnlyOneArrayGroup ln (map name (array_groups (args E))))
          else if length have_data_for_array = 0
            then Inl (NoArrayGroup ln (map name (array_groups (args E))))
          else Inr (have_data_for_array ! 0, current_array_columns))"

text \<open>Lines 367 to 470 on a continuation line: only the columns in
  \<open>current_array_columns\<close> are converted. The state is \<open>dest\<close> and
  \<open>current_array_object\<close>.\<close>

definition convert_continuation :: "('f, 'd) builtins \<Rightarrow> nat \<Rightarrow> string list
     \<Rightarrow> ('f, 'd) array_group \<Rightarrow> string set \<Rightarrow> nat \<times> column
     \<Rightarrow> ('f, 'd) pyval \<times> ('f, 'd) pyval \<Rightarrow> error + (('f, 'd) pyval \<times> ('f, 'd) pyval)" where
  "convert_continuation B ln row current_array_group current_array_columns ic s =
     (case ic of (col_nr, col) \<Rightarrow>
      (case s of (dest, current_array_object) \<Rightarrow>
        (if column_name col \<notin> current_array_columns then Inr s
         else
           andthen (convert_cell B ln col (row ! col_nr)) (\<lambda>(converted_value, is_empty).
             (case prefix current_array_group of
                None \<Rightarrow>
                  andthen (append_attr dest (name current_array_group) converted_value) (\<lambda>d.
                    Inr (d, current_array_object))
              | Some p \<Rightarrow>
                  andthen (column_name_for_array_object col (length p)) (\<lambda>a.
                  andthen (setattr current_array_object a converted_value) (\<lambda>obj.
                    Inr (dest, obj))))))))"

text \<open>
  The continuation line. For a group with a prefix the source appends the new object to
  the list first and sets its attributes afterwards, through the same reference; here the
  list is read first (that is where a missing attribute raises), and the object is stored
  in it once its attributes are set. Nothing else reads the list in between.
\<close>

definition continuation :: "('f, 'd) builtins \<Rightarrow> ('f, 'd) env \<Rightarrow> nat \<Rightarrow> string list
     \<Rightarrow> ('f, 'd) pyval list \<Rightarrow> error + ('f, 'd) pyval list" where
  "continuation B E ln row res =
     andthen (check_continuation E ln row) (\<lambda>(ag_index, current_array_columns).
       (case res of
          [] \<Rightarrow> Inl NameError
        | _ # _ \<Rightarrow>
            (let dest = last res;
                 current_array_group = array_groups (args E) ! ag_index;
                 current_array_object = create_array_object current_array_group
             in andthen (if current_array_object = VNone then Inr ()
                         else andthen (append_attr dest (name current_array_group) current_array_object)
                                (\<lambda>_. Inr ())) (\<lambda>_.
                andthen (foldE (convert_continuation B ln row current_array_group current_array_columns)
                           (column_index_to_column E) (dest, current_array_object)) (\<lambda>(dest, obj).
                andthen (if current_array_object = VNone then Inr dest
                         else append_attr dest (name current_array_group) obj) (\<lambda>dest.
                  Inr (butlast res @ [dest])))))))"

definition process_row :: "('f, 'd) builtins \<Rightarrow> ('f, 'd) env \<Rightarrow> string list \<Rightarrow> ('f, 'd) state
     \<Rightarrow> error + ('f, 'd) state" where
  "process_row B E row0 st =
     (let ln = line st + 1
      in if length row0 \<noteq> header_field_count E
         then Inl (WrongColumnCount ln (header_field_count E) (length row0))
         else
           (let row = space_handled E row0
            in andthen (foldE (check_related_row E ln row) (related_columns (args E)) ()) (\<lambda>_.
               andthen (determine_newdest E st ln row) (\<lambda>(newdest, prev, seen).
               andthen (if newdest then new_record B E ln row (result st)
                        else continuation B E ln row (result st)) (\<lambda>res.
                 Inr \<lparr>line = ln, result = res, previous_identifier = prev,
                      done_identifiers = seen\<rparr>)))))"

section \<open>csv\_tools.py: read\_header\_csv\_with\_reader\<close>

text \<open>The reader yields the lines of the file, each split into its fields; the first one
  is the header line, and \<^verbatim>\<open>next( reader )\<close> raises \<^verbatim>\<open>StopIteration\<close> when there is
  none.\<close>

definition read_header_csv_with_reader :: "('f, 'd) builtins \<Rightarrow> ('f, 'd) reader_args
     \<Rightarrow> string list list \<Rightarrow> error + (('f, 'd) pyval list \<times> (column \<times> nat) list)" where
  "read_header_csv_with_reader B a reader =
     (case reader of
        [] \<Rightarrow>
          (let hdict = header_dict (header a) in
           andthen (check_unique {} (header a)) (\<lambda>_.
           andthen (check_empty_ok (header a)) (\<lambda>_.
           andthen (check_related_columns hdict (related_columns a)) (\<lambda>_.
           andthen (check_identifier_column hdict (identifier_column a)) (\<lambda>_.
           andthen (make_array_column_name_to_array_index hdict (header a) (array_groups a)) (\<lambda>_.
             Inl StopIteration))))))
      | headerline # rows \<Rightarrow>
          andthen (prepare a headerline) (\<lambda>E.
          andthen (foldE (process_row B E) rows initial_state) (\<lambda>st.
            Inr (result st, column_to_column_index E))))"

section \<open>file\_format.py: the format of the CSV file\<close>

text \<open>The set of country codes; a set of strings as a column type is kept as the list of
  its members.\<close>

definition country_codes :: "string list" where
  "country_codes =
     [
      ''UNDEFINED'', ''AC'', ''AD'', ''AE'', ''AF'', ''AG'', ''AI'', ''AL'', ''AM'',
      ''AN'', ''AO'', ''AQ'', ''AR'', ''AS'', ''AT'', ''AU'', ''AW'', ''AX'', ''AZ'',
      ''BA'', ''BB'', ''BD'', ''BE'', ''BF'', ''BG'', ''BH'', ''BI'', ''BJ'', ''BL'',
      ''BM'', ''BN'', ''BO'', ''BQ'', ''BR'', ''BS'', ''BT'', ''BU'', ''BV'', ''BW'',
      ''BY'', ''BZ'', ''CA'', ''CC'', ''CD'', ''CF'', ''CG'', ''CH'', ''CI'', ''CK'',
      ''CL'', ''CM'', ''CN'', ''CO'', ''CP'', ''CR'', ''CS'', ''CU'', ''CV'', ''CW'',
      ''CX'', ''CY'', ''CZ'', ''DE'', ''DG'', ''DJ'', ''DK'', ''DM'', ''DO'', ''DZ'',
      ''EA'', ''EC'', ''EE'', ''EG'', ''EH'', ''ER'', ''ES'', ''ET'', ''EU'', ''EZ'',
      ''FI'', ''FJ'', ''FK'', ''FM'', ''FO'', ''FR'', ''FX'', ''GA'', ''GB'', ''GD'',
      ''GE'', ''GF'', ''GG'', ''GH'', ''GI'', ''GL'', ''GM'', ''GN'', ''GP'', ''GQ'',
      ''GR'', ''GS'', ''GT'', ''GU'', ''GW'', ''GY'', ''HK'', ''HM'', ''HN'', ''HR'',
      ''HT'', ''HU'', ''IC'', ''ID'', ''IE'', ''IL'', ''IM'', ''IN'', ''IO'', ''IQ'',
      ''IR'', ''IS'', ''IT'', ''JE'', ''JM'', ''JO'', ''JP'', ''KE'', ''KG'', ''KH'',
      ''KI'', ''KM'', ''KN'', ''KP'', ''KR'', ''KW'', ''KY'', ''KZ'', ''LA'', ''LB'',
      ''LC'', ''LI'', ''LK'', ''LR'', ''LS'', ''LT'', ''LU'', ''LV'', ''LY'', ''MA'',
      ''MC'', ''MD'', ''ME'', ''MF'', ''MG'', ''MH'', ''MK'', ''ML'', ''MM'', ''MN'',
      ''MO'', ''MP'', ''MQ'', ''MR'', ''MS'', ''MT'', ''MU'', ''MV'', ''MW'', ''MX'',
      ''MY'', ''MZ'', ''NA'', ''NC'', ''NE'', ''NF'', ''NG'', ''NI'', ''NL'', ''NO'',
      ''NP'', ''NR'', ''NT'', ''NU'', ''NZ'', ''OM'', ''PA'', ''PE'', ''PF'', ''PG'',
      ''PH'', ''PK'', ''PL'', ''PM'', ''PN'', ''PR'', ''PS'', ''PT'', ''PW'', ''PY'',
      ''QA'', ''RE'', ''RO'', ''RS'', ''RU'', ''RW'', ''SA'', ''SB'', ''SC'', ''SD'',
      ''SE'', ''SF'', ''SG'', ''SH'', ''SI'', ''SJ'', ''SK'', ''SL'', ''SM'', ''SN'',
      ''SO'', ''SR'', ''SS'', ''ST'', ''SU'', ''SV'', ''SX'', ''SY'', ''SZ'', ''TA'',
      ''TC'', ''TD'', ''TF'', ''TG'', ''TH'', ''TJ'', ''TK'', ''TL'', ''TM'', ''TN'',
      ''TO'', ''TP'', ''TR'', ''TT'', ''TV'', ''TW'', ''TZ'', ''UA'', ''UG'', ''UK'',
      ''UM'', ''US'', ''UY'', ''UZ'', ''VA'', ''VC'', ''VE'', ''VG'', ''VI'', ''VN'',
      ''VU'', ''WF'', ''WS'', ''XI'', ''XU'', ''XK'', ''YE'', ''YT'', ''YU'', ''ZA'',
      ''ZM'', ''ZR'', ''ZW'']"

text \<open>The enumerations, by the names of their members.\<close>

definition StatesType :: "string list" where
  "StatesType = [''INACTIVE'', ''ACTIVE'']"

definition ClassificationsType :: "string list" where
  "ClassificationsType = [''NACE'', ''NAF'', ''NAICS'', ''SIC'']"

definition Roles :: "string list" where
  "Roles = [''SUPPLIER'', ''CUSTOMER'', ''ONE_TIME_SUPPLIER'', ''ONE_TIME_CUSTOMER'']"

definition AddressType :: "string list" where
  "AddressType =
     [''LegalAndSiteMainAddress'', ''LegalAddress'', ''SiteMainAddress'', ''AdditionalAddress'']"

definition DeliveryServiceType :: "string list" where
  "DeliveryServiceType = [''PO_BOX'', ''PRIVATE_BAG'', ''BOITE_POSTALE'']"

fun sequenceE :: "(error + 'a) list \<Rightarrow> error + 'a list" where
  "sequenceE [] = Inr []"
| "sequenceE (m # ms) =
     (case m of Inl e \<Rightarrow> Inl e
      | Inr x \<Rightarrow> (case sequenceE ms of Inl e \<Rightarrow> Inl e | Inr xs \<Rightarrow> Inr (x # xs)))"

text \<open>\<^verbatim>\<open>get_csv_header\<close>: the arguments of \<open>Column\<close> are the name, the type, the empty
  policy, \<^verbatim>\<open>optional\<close> and \<^verbatim>\<open>destination_name\<close>.\<close>

definition get_csv_header :: "error + column list" where
  "get_csv_header = sequenceE [
      Column ''externalId'' TStr NotOK False None,
      Column ''name1'' TStr NotOK False None,
      Column ''name2'' TStr ToNone True None,
      Column ''name3'' TStr ToNone True None,
      Column ''name4'' TStr ToNone True None,
      Column ''name5'' TStr ToNone True None,
      Column ''name6'' TStr ToNone True None,
      Column ''name7'' TStr ToNone True None,
      Column ''name8'' TStr ToNone True None,
      Column ''name9'' TStr ToNone True None,
      Column ''identifiers.type'' TStr ToNone True None,
      Column ''identifiers.value'' TStr ToNone True None,
      Column ''identifiers.issuingBody'' TStr ToNone True None,
      Column ''states.validFrom'' TDateTime ToNone True None,
      Column ''states.validTo'' TDateTime ToNone True None,
      Column ''states.type'' (TEnum StatesType) ToNone True None,
      Column ''roles'' (TEnum Roles) ToNone True None,
      Column ''legalEntity.legalEntityBpn'' TStr ToNone True None,
      Column ''legalEntity.legalName'' TStr ToNone True None,
      Column ''legalEntity.shortName'' TStr ToNone True None,
      Column ''legalEntity.legalForm'' TStr ToNone True None,
      Column ''legalEntity.classifications.type'' (TEnum ClassificationsType) ToNone True None,
      Column ''legalEntity.classifications.code'' TStr ToNone True None,
      Column ''legalEntity.classifications.value'' TStr ToNone True None,
      Column ''site.siteBpn'' TStr ToNone True None,
      Column ''site.name'' TStr ToNone True None,
      Column ''address.addressBpn'' TStr ToNone True None,
      Column ''address.name'' TStr ToNone True None,
      Column ''address.addressType'' (TEnum AddressType) ToNone True None,
      Column ''address.physical.geographicCoordinates.longitude'' TFloat ToNone True None,
      Column ''address.physical.geographicCoordinates.latitude'' TFloat ToNone True None,
      Column ''address.physical.geographicCoordinates.altitude'' TFloat ToNone True None,
      Column ''address.physical.country'' (TSet country_codes) ToNone True None,
      Column ''address.physical.administrativeAreaLevel1'' TStr ToNone True None,
      Column ''address.physical.administrativeAreaLevel2'' TStr ToNone True None,
      Column ''address.physical.administrativeAreaLevel3'' TStr ToNone True None,
      Column ''address.physical.postalCode'' TStr ToNone True None,
      Column ''address.physical.city'' TStr ToNone True None,
      Column ''address.physical.district'' TStr ToNone True None,
      Column ''address.physical.street.namePrefix'' TStr ToNone True None,
      Column ''address.physical.street.additionalNamePrefix'' TStr ToNone True None,
      Column ''address.physical.street.name'' TStr ToNone True None,
      Column ''address.physical.street.nameSuffix'' TStr ToNone True None,
      Column ''address.physical.street.additionalNameSuffix'' TStr ToNone True None,
      Column ''address.physical.street.houseNumber'' TStr ToNone True None,
      Column ''address.physical.street.houseNumberSupplement'' TStr ToNone True None,
      Column ''address.physical.street.milestone'' TStr ToNone True None,
      Column ''address.physical.street.direction'' TStr ToNone True None,
      Column ''address.physical.companyPostalCode'' TStr ToNone True None,
      Column ''address.physical.industrialZone'' TStr ToNone True None,
      Column ''address.physical.building'' TStr ToNone True None,
      Column ''address.physical.floor'' TStr ToNone True None,
      Column ''address.physical.door'' TStr ToNone True None,
      Column ''address.alternative.geographicCoordinates.longitude'' TFloat ToNone True None,
      Column ''address.alternative.geographicCoordinates.latitude'' TFloat ToNone True None,
      Column ''address.alternative.geographicCoordinates.altitude'' TFloat ToNone True None,
      Column ''address.alternative.country'' (TSet country_codes) ToNone True None,
      Column ''address.alternative.administrativeAreaLevel1'' TStr ToNone True None,
      Column ''address.alternative.postalCode'' TStr ToNone True None,
      Column ''address.alternative.city'' TStr ToNone True None,
      Column ''address.alternative.deliveryServiceType'' (TEnum DeliveryServiceType) ToNone True None,
      Column ''address.alternative.deliveryServiceQualifier'' TStr ToNone True None,
      Column ''address.alternative.deliveryServiceNumber'' TStr ToNone True None,
      Column ''createdAt'' TDateTime ToNone True None,
      Column ''updatedAt'' TDateTime ToNone True None,
      Column ''isOwnCompanyData'' TBool NotOK False None]"

text \<open>The list of columns that \<open>get_csv_header\<close> evaluates to (lemma
  \<open>get_csv_header_value\<close> below), with the destination names that
  \<open>make_attribute_name\<close> gives.\<close>

definition csv_header_columns :: "column list" where
  "csv_header_columns = [
      \<lparr>column_name = ''externalId'', column_type = TStr, empty = NotOK,
       optional = False, destination_name = ''externalId'',
       destination_name_provided = False\<rparr>,
      \<lparr>column_name = ''name1'', column_type = TStr, empty = NotOK,
       optional = False, destination_name = ''name1'',
       destination_name_provided = False\<rparr>,
      \<lparr>column_name = ''name2'', column_type = TStr, empty = ToNone,
       optional = True, destination_name = ''name2'',
       destination_name_provided = False\<rparr>,
      \<lparr>column_name = ''name3'', column_type = TStr, empty = ToNone,
       optional = True, destination_name = ''name3'',
       destination_name_provided = False\<rparr>,
      \<lparr>column_name = ''name4'', column_type = TStr, empty = ToNone,
       optional = True, destination_name = ''name4'',
       destination_name_provided = False\<rparr>,
      \<lparr>column_name = ''name5'', column_type = TStr, empty = ToNone,
       optional = True, destination_name = ''name5'',
       destination_name_provided = False\<rparr>,
      \<lparr>column_name = ''name6'', column_type = TStr, empty = ToNone,
       optional = True, destination_name = ''name6'',
       destination_name_provided = False\<rparr>,
      \<lparr>column_name = ''name7'', column_type = TStr, empty = ToNone,
       optional = True, destination_name = ''name7'',
       destination_name_provided = False\<rparr>,
      \<lparr>column_name = ''name8'', column_type = TStr, empty = ToNone,
       optional = True, destination_name = ''name8'',
       destination_name_provided = False\<rparr>,
      \<lparr>column_name = ''name9'', column_type = TStr, empty = ToNone,
       optional = True, destination_name = ''name9'',
       destination_name_provided = False\<rparr>,
      \<lparr>column_name = ''identifiers.type'', column_type = TStr, empty = ToNone,
       optional = True, destination_name = ''identifiers_type'',
       destination_name_provided = False\<rparr>,
      \<lparr>column_name = ''identifiers.value'', column_type = TStr, empty = ToNone,
       optional = True, destination_name = ''identifiers_value'',
       destination_name_provided = False\<rparr>,
      \<lparr>column_name = ''identifiers.issuingBody'', column_type = TStr, empty = ToNone,
       optional = True, destination_name = ''identifiers_issuingBody'',
       destination_name_provided = False\<rparr>,
      \<lparr>column_name = ''states.validFrom'', column_type = TDateTime, empty = ToNone,
       optional = True, destination_name = ''states_validFrom'',
       destination_name_provided = False\<rparr>,
      \<lparr>column_name = ''states.validTo'', column_type = TDateTime, empty = ToNone,
       optional = True, destination_name = ''states_validTo'',
       destination_name_provided = False\<rparr>,
      \<lparr>column_name = ''states.type'', column_type = TEnum StatesType, empty = ToNone,
       optional = True, destination_name = ''states_type'',
       destination_name_provided = False\<rparr>,
      \<lparr>column_name = ''roles'', column_type = TEnum Roles, empty = ToNone,
       optional = True, destination_name = ''roles'',
       destination_name_provided = False\<rparr>,
      \<lparr>column_name = ''legalEntity.legalEntityBpn'', column_type = TStr, empty = ToNone,
       optional = True, destination_name = ''legalEntity_legalEntityBpn'',
       destination_name_provided = False\<rparr>,
      \<lparr>column_name = ''legalEntity.legalName'', column_type = TStr, empty = ToNone,
       optional = True, destination_name = ''legalEntity_legalName'',
       destination_name_provided = False\<rparr>,
      \<lparr>column_name = ''legalEntity.shortName'', column_type = TStr, empty = ToNone,
       optional = True, destination_name = ''legalEntity_shortName'',
       destination_name_provided = False\<rparr>,
      \<lparr>column_name = ''legalEntity.legalForm'', column_type = TStr, empty = ToNone,
       optional = True, destination_name = ''legalEntity_legalForm'',
       destination_name_provided = False\<rparr>,
      \<lparr>column_name = ''legalEntity.classifications.type'', column_type = TEnum ClassificationsType, empty = ToNone,
       optional = True, destination_name = ''legalEntity_classifications_type'',
       destination_name_provided = False\<rparr>,
      \<lparr>column_name = ''legalEntity.classifications.code'', column_type = TStr, empty = ToNone,
       optional = True, destination_name = ''legalEntity_classifications_code'',
       destination_name_provided = False\<rparr>,
      \<lparr>column_name = ''legalEntity.classifications.value'', column_type = TStr, empty = ToNone,
       optional = True, destination_name = ''legalEntity_classifications_value'',
       destination_name_provided = False\<rparr>,
      \<lparr>column_name = ''site.siteBpn'', column_type = TStr, empty = ToNone,
       optional = True, destination_name = ''site_siteBpn'',
       destination_name_provided = False\<rparr>,
      \<lparr>column_name = ''site.name'', column_type = TStr, empty = ToNone,
       optional = True, destination_name = ''site_name'',
       destination_name_provided = False\<rparr>,
      \<lparr>column_name = ''address.addressBpn'', column_type = TStr, empty = ToNone,
       optional = True, destination_name = ''address_addressBpn'',
       destination_name_provided = False\<rparr>,
      \<lparr>column_name = ''address.name'', column_type = TStr, empty = ToNone,
       optional = True, destination_name = ''address_name'',
       destination_name_provided = False\<rparr>,
      \<lparr>column_name = ''address.addressType'', column_type = TEnum AddressType, empty = ToNone,
       optional = True, destination_name = ''address_addressType'',
       destination_name_provided = False\<rparr>,
      \<lparr>column_name = ''address.physical.geographicCoordinates.longitude'', column_type = TFloat, empty = ToNone,
       optional = True, destination_name = ''address_physical_geographicCoordinates_longitude'',
       destination_name_provided = False\<rparr>,
      \<lparr>column_name = ''address.physical.geographicCoordinates.latitude'', column_type = TFloat, empty = ToNone,
       optional = True, destination_name = ''address_physical_geographicCoordinates_latitude'',
       destination_name_provided = False\<rparr>,
      \<lparr>column_name = ''address.physical.geographicCoordinates.altitude'', column_type = TFloat, empty = ToNone,
       optional = True, destination_name = ''address_physical_geographicCoordinates_altitude'',
       destination_name_provided = False\<rparr>,
      \<lparr>column_name = ''address.physical.country'', column_type = TSet country_codes, empty = ToNone,
       optional = True, destination_name = ''address_physical_country'',
       destination_name_provided = False\<rparr>,
      \<lparr>column_name = ''address.physical.administrativeAreaLevel1'', column_type = TStr, empty = ToNone,
       optional = True, destination_name = ''address_physical_administrativeAreaLevel1'',
       destination_name_provided = False\<rparr>,
      \<lparr>column_name = ''address.physical.administrativeAreaLevel2'', column_type = TStr, empty = ToNone,
       optional = True, destination_name = ''address_physical_administrativeAreaLevel2'',
       destination_name_provided = False\<rparr>,
      \<lparr>column_name = ''address.physical.administrativeAreaLevel3'', column_type = TStr, empty = ToNone,
       optional = True, destination_name = ''address_physical_administrativeAreaLevel3'',
       destination_name_provided = False\<rparr>,
      \<lparr>column_name = ''address.physical.postalCode'', column_type = TStr, empty = ToNone,
       optional = True, destination_name = ''address_physical_postalCode'',
       destination_name_provided = False\<rparr>,
      \<lparr>column_name = ''address.physical.city'', column_type = TStr, empty = ToNone,
       optional = True, destination_name = ''address_physical_city'',
       destination_name_provided = False\<rparr>,
      \<lparr>column_name = ''address.physical.district'', column_type = TStr, empty = ToNone,
       optional = True, destination_name = ''address_physical_district'',
       destination_name_provided = False\<rparr>,
      \<lparr>column_name = ''address.physical.street.namePrefix'', column_type = TStr, empty = ToNone,
       optional = True, destination_name = ''address_physical_street_namePrefix'',
       destination_name_provided = False\<rparr>,
      \<lparr>column_name = ''address.physical.street.additionalNamePrefix'', column_type = TStr, empty = ToNone,
       optional = True, destination_name = ''address_physical_street_additionalNamePrefix'',
       destination_name_provided = False\<rparr>,
      \<lparr>column_name = ''address.physical.street.name'', column_type = TStr, empty = ToNone,
       optional = True, destination_name = ''address_physical_street_name'',
       destination_name_provided = False\<rparr>,
      \<lparr>column_name = ''address.physical.street.nameSuffix'', column_type = TStr, empty = ToNone,
       optional = True, destination_name = ''address_physical_street_nameSuffix'',
       destination_name_provided = False\<rparr>,
      \<lparr>column_name = ''address.physical.street.additionalNameSuffix'', column_type = TStr, empty = ToNone,
       optional = True, destination_name = ''address_physical_street_additionalNameSuffix'',
       destination_name_provided = False\<rparr>,
      \<lparr>column_name = ''address.physical.street.houseNumber'', column_type = TStr, empty = ToNone,
       optional = True, destination_name = ''address_physical_street_houseNumber'',
       destination_name_provided = False\<rparr>,
      \<lparr>column_name = ''address.physical.street.houseNumberSupplement'', column_type = TStr, empty = ToNone,
       optional = True, destination_name = ''address_physical_street_houseNumberSupplement'',
       destination_name_provided = False\<rparr>,
      \<lparr>column_name = ''address.physical.street.milestone'', column_type = TStr, empty = ToNone,
       optional = True, destination_name = ''address_physical_street_milestone'',
       destination_name_provided = False\<rparr>,
      \<lparr>column_name = ''address.physical.street.direction'', column_type = TStr, empty = ToNone,
       optional = True, destination_name = ''address_physical_street_direction'',
       destination_name_provided = False\<rparr>,
      \<lparr>column_name = ''address.physical.companyPostalCode'', column_type = TStr, empty = ToNone,
       optional = True, destination_name = ''address_physical_companyPostalCode'',
       destination_name_provided = False\<rparr>,
      \<lparr>column_name = ''address.physical.industrialZone'', column_type = TStr, empty = ToNone,
       optional = True, destination_name = ''address_physical_industrialZone'',
       destination_name_provided = False\<rparr>,
      \<lparr>column_name = ''address.physical.building'', column_type = TStr, empty = ToNone,
       optional = True, destination_name = ''address_physical_building'',
       destination_name_provided = False\<rparr>,
      \<lparr>column_name = ''address.physical.floor'', column_type = TStr, empty = ToNone,
       optional = True, destination_name = ''address_physical_floor'',
       destination_name_provided = False\<rparr>,
      \<lparr>column_name = ''address.physical.door'', column_type = TStr, empty = ToNone,
       optional = True, destination_name = ''address_physical_door'',
       destination_name_provided = False\<rparr>,
      \<lparr>column_name = ''address.alternative.geographicCoordinates.longitude'', column_type = TFloat, empty = ToNone,
       optional = True, destination_name = ''address_alternative_geographicCoordinates_longitude'',
       destination_name_provided = False\<rparr>,
      \<lparr>column_name = ''address.alternative.geographicCoordinates.latitude'', column_type = TFloat, empty = ToNone,
       optional = True, destination_name = ''address_alternative_geographicCoordinates_latitude'',
       destination_name_provided = False\<rparr>,
      \<lparr>column_name = ''address.alternative.geographicCoordinates.altitude'', column_type = TFloat, empty = ToNone,
       optional = True, destination_name = ''address_alternative_geographicCoordinates_altitude'',
       destination_name_provided = False\<rparr>,
      \<lparr>column_name = ''address.alternative.country'', column_type = TSet country_codes, empty = ToNone,
       optional = True, destination_name = ''address_alternative_country'',
       destination_name_provided = False\<rparr>,
      \<lparr>column_name = ''address.alternative.administrativeAreaLevel1'', column_type = TStr, empty = ToNone,
       optional = True, destination_name = ''address_alternative_administrativeAreaLevel1'',
       destination_name_provided = False\<rparr>,
      \<lparr>column_name = ''address.alternative.postalCode'', column_type = TStr, empty = ToNone,
       optional = True, destination_name = ''address_alternative_postalCode'',
       destination_name_provided = False\<rparr>,
      \<lparr>column_name = ''address.alternative.city'', column_type = TStr, empty = ToNone,
       optional = True, destination_name = ''address_alternative_city'',
       destination_name_provided = False\<rparr>,
      \<lparr>column_name = ''address.alternative.deliveryServiceType'', column_type = TEnum DeliveryServiceType, empty = ToNone,
       optional = True, destination_name = ''address_alternative_deliveryServiceType'',
       destination_name_provided = False\<rparr>,
      \<lparr>column_name = ''address.alternative.deliveryServiceQualifier'', column_type = TStr, empty = ToNone,
       optional = True, destination_name = ''address_alternative_deliveryServiceQualifier'',
       destination_name_provided = False\<rparr>,
      \<lparr>column_name = ''address.alternative.deliveryServiceNumber'', column_type = TStr, empty = ToNone,
       optional = True, destination_name = ''address_alternative_deliveryServiceNumber'',
       destination_name_provided = False\<rparr>,
      \<lparr>column_name = ''createdAt'', column_type = TDateTime, empty = ToNone,
       optional = True, destination_name = ''createdAt'',
       destination_name_provided = False\<rparr>,
      \<lparr>column_name = ''updatedAt'', column_type = TDateTime, empty = ToNone,
       optional = True, destination_name = ''updatedAt'',
       destination_name_provided = False\<rparr>,
      \<lparr>column_name = ''isOwnCompanyData'', column_type = TBool, empty = NotOK,
       optional = False, destination_name = ''isOwnCompanyData'',
       destination_name_provided = False\<rparr>]"

section \<open>convert\_csv.py\<close>

text \<open>The classes of the decoded records, by the attributes their constructors set.\<close>

definition CSVIdentifiers :: "(string \<times> ('f, 'd) pyval) list" where
  "CSVIdentifiers = [(''type'', VNone), (''value'', VNone), (''issuingBody'', VNone)]"

definition CSVStates :: "(string \<times> ('f, 'd) pyval) list" where
  "CSVStates = [(''validFrom'', VNone), (''validTo'', VNone), (''type'', VNone)]"

definition CSVRecord :: "(string \<times> ('f, 'd) pyval) list" where
  "CSVRecord = [
      (''externalId'', VNone),
      (''name1'', VNone),
      (''name2'', VNone),
      (''name3'', VNone),
      (''name4'', VNone),
      (''name5'', VNone),
      (''name6'', VNone),
      (''name7'', VNone),
      (''name8'', VNone),
      (''name9'', VNone),
      (''identifiers'', VList []),
      (''states'', VList []),
      (''roles'', VList []),
      (''isOwnCompanyData'', VBool False),
      (''legalEntity_legalEntityBpn'', VNone),
      (''legalEntity_legalName'', VNone),
      (''legalEntity_shortName'', VNone),
      (''legalEntity_legalForm'', VNone),
      (''legalEntity_states'', VList []),
      (''site_siteBpn'', VNone),
      (''site_name'', VNone),
      (''site_states'', VList []),
      (''address_addressBpn'', VNone),
      (''address_name'', VNone),
      (''address_addressType'', VNone),
      (''address_physical_geographicCoordinates_longitude'', VNone),
      (''address_physical_geographicCoordinates_latitude'', VNone),
      (''address_physical_geographicCoordinates_altitude'', VNone),
      (''address_physical_country'', VNone),
      (''address_physical_administrativeAreaLevel1'', VNone),
      (''address_physical_administrativeAreaLevel2'', VNone),
      (''address_physical_administrativeAreaLevel3'', VNone),
      (''address_physical_postalCode'', VNone),
      (''address_physical_city'', VNone),
      (''address_physical_district'', VNone),
      (''address_physical_street_namePrefix'', VNone),
      (''address_physical_street_additionalNamePrefix'', VNone),
      (''address_physical_street_name'', VNone),
      (''address_physical_street_nameSuffix'', VNone),
      (''address_physical_street_additionalNameSuffix'', VNone),
      (''address_physical_street_houseNumber'', VNone),
      (''address_physical_street_houseNumberSupplement'', VNone),
      (''address_physical_street_milestone'', VNone),
      (''address_physical_street_direction'', VNone),
      (''address_physical_companyPostalCode'', VNone),
      (''address_physical_industrialZone'', VNone),
      (''address_physical_building'', VNone),
      (''address_physical_floor'', VNone),
      (''address_physical_door'', VNone),
      (''address_alternative_geographicCoordinates_longitude'', VNone),
      (''address_alternative_geographicCoordinates_latitude'', VNone),
      (''address_alternative_geographicCoordinates_altitude'', VNone),
      (''address_alternative_country'', VNone),
      (''address_alternative_administrativeAreaLevel1'', VNone),
      (''address_alternative_postalCode'', VNone),
      (''address_alternative_city'', VNone),
      (''address_alternative_deliveryServiceType'', VNone),
      (''address_alternative_deliveryServiceQualifier'', VNone),
      (''address_alternative_deliveryServiceNumber'', VNone),
      (''address_states'', VList [])]"

text \<open>The two regular expressions of \<^verbatim>\<open>convert\<close> are a circumflex followed by letters and
  dots. Such a pattern is given by the text after the circumflex; it is found in a name when
  it matches at the start, a dot matching any character but a newline.\<close>

fun regex_search :: "string \<Rightarrow> string \<Rightarrow> bool" where
  "regex_search [] s = True"
| "regex_search (p # ps) [] = False"
| "regex_search (p # ps) (c # cs) =
     ((if p = CHR ''.'' then c \<noteq> CHR 0x0A else p = c) \<and> regex_search ps cs)"

definition get_all_columns :: "column list \<Rightarrow> string \<Rightarrow> error + related_member list" where
  "get_all_columns hs regex =
     (let result = map (\<lambda>c. ByName (column_name c))
                     (filter (\<lambda>c. regex_search regex (column_name c)) hs)
      in if length result = 0 then Inl (NoColumnsFound regex) else Inr result)"

definition convert_csv_array_groups :: "('f, 'd) array_group list" where
  "convert_csv_array_groups =
     [\<lparr>name = ''identifiers'', prefix = Some ''identifiers.'', make_type = Some CSVIdentifiers\<rparr>,
      \<lparr>name = ''roles'', prefix = None, make_type = None\<rparr>,
      \<lparr>name = ''states'', prefix = Some ''states.'', make_type = Some CSVStates\<rparr>,
      \<lparr>name = ''legalEntity_states'', prefix = Some ''legalEntity.states.'',
         make_type = Some CSVStates\<rparr>,
      \<lparr>name = ''site_states'', prefix = Some ''site.states.'', make_type = Some CSVStates\<rparr>,
      \<lparr>name = ''address_states'', prefix = Some ''address.states.'', make_type = Some CSVStates\<rparr>]"

text \<open>\<^verbatim>\<open>convert_csv.convert\<close>: the decoder of the upload, on the lines of the file.\<close>

definition convert_csv :: "('f, 'd) builtins \<Rightarrow> string list list \<Rightarrow> error + ('f, 'd) pyval list" where
  "convert_csv B reader =
     andthen get_csv_header (\<lambda>hs.
     andthen (get_all_columns hs ''address.physical.geographicCoordinates.l'') (\<lambda>r1.
     andthen (get_all_columns hs ''address.alternative.geographicCoordinates.l'') (\<lambda>r2.
     andthen (read_header_csv_with_reader B
                \<lparr>header = hs, make_objects = MakeType CSVRecord, space_handling = Collapse,
                 ignore_unknown_columns = False, related_columns = [r1, r2],
                 identifier_column = Some ''externalId'',
                 array_groups = convert_csv_array_groups\<rparr> reader) (\<lambda>(data, _).
       Inr data))))"

section \<open>convert\_json.py: values\<close>

text \<open>The records that come from the API are JSON values as \<^verbatim>\<open>json\<close> loads them; an
  object keeps its members in order. \<^verbatim>\<open>str()\<close> of a float is a parameter, \<open>py_str_float\<close>;
  \<^verbatim>\<open>str()\<close> of an integer is its decimal numeral.\<close>

datatype 'f json =
    JNull
  | JBool bool
  | JInt int
  | JFloat 'f
  | JStr string
  | JList "'f json list"
  | JDict "(string \<times> 'f json) list"

fun str_nat :: "nat \<Rightarrow> string" where
  "str_nat n = (if n < 10 then [char_of (48 + n)] else str_nat (n div 10) @ [char_of (48 + n mod 10)])"

definition str_int :: "int \<Rightarrow> string" where
  "str_int i = (if i < 0 then CHR ''-'' # str_nat (nat (- i)) else str_nat (nat i))"

definition convert_value :: "('f \<Rightarrow> string) \<Rightarrow> 'f json \<Rightarrow> string" where
  "convert_value py_str_float v =
     (case v of
        JNull \<Rightarrow> []
      | JDict kvs \<Rightarrow> ''internal error 2''
      | JList xs \<Rightarrow> ''internal error 2''
      | JFloat x \<Rightarrow> replace_char CHR ''.'' CHR '','' (py_str_float x)
      | JBool b \<Rightarrow> (if b then ''true'' else ''false'')
      | JInt i \<Rightarrow> str_int i
      | JStr t \<Rightarrow> t)"

text \<open>What Python does with a value that is iterated, measured, indexed with \<open>0\<close>, sliced
  with \<open>1:\<close> or indexed with a key. A string is the sequence of its characters, a dictionary
  iterates its keys; everything that is not possible raises. (The slice of a dictionary is a
  \<^verbatim>\<open>TypeError\<close> before Python 3.12 and a \<^verbatim>\<open>KeyError\<close> from then on.)\<close>

definition py_iter :: "'f json \<Rightarrow> error + 'f json list" where
  "py_iter v =
     (case v of
        JList xs \<Rightarrow> Inr xs
      | JStr t \<Rightarrow> Inr (map (\<lambda>c. JStr [c]) t)
      | JDict kvs \<Rightarrow> Inr (map (\<lambda>kv. JStr (fst kv)) kvs)
      | _ \<Rightarrow> Inl TypeError)"

definition py_len :: "'f json \<Rightarrow> error + nat" where
  "py_len v =
     (case v of
        JList xs \<Rightarrow> Inr (length xs)
      | JStr t \<Rightarrow> Inr (length t)
      | JDict kvs \<Rightarrow> Inr (length kvs)
      | _ \<Rightarrow> Inl TypeError)"

definition py_first :: "'f json \<Rightarrow> error + 'f json" where
  "py_first v =
     (case v of
        JList xs \<Rightarrow> (case xs of [] \<Rightarrow> Inl IndexError | x # _ \<Rightarrow> Inr x)
      | JStr t \<Rightarrow> (case t of [] \<Rightarrow> Inl IndexError | c # _ \<Rightarrow> Inr (JStr [c]))
      | JDict kvs \<Rightarrow> Inl (KeyError ''0'')
      | _ \<Rightarrow> Inl TypeError)"

definition py_rest :: "'f json \<Rightarrow> error + 'f json list" where
  "py_rest v =
     (case v of
        JList xs \<Rightarrow> Inr (tl xs)
      | JStr t \<Rightarrow> Inr (map (\<lambda>c. JStr [c]) (tl t))
      | _ \<Rightarrow> Inl TypeError)"

definition py_item :: "'f json \<Rightarrow> string \<Rightarrow> error + 'f json" where
  "py_item v k =
     (case v of
        JDict kvs \<Rightarrow> (case map_of kvs k of None \<Rightarrow> Inl (KeyError k) | Some x \<Rightarrow> Inr x)
      | _ \<Rightarrow> Inl TypeError)"

section \<open>convert\_json.py: the repeating groups\<close>

text \<open>A line of the CSV is a dictionary from column names to strings; the external id is
  stored as it is found in the record, so the values are JSON values, a converted string
  being a \<open>JStr\<close>.\<close>

type_synonym 'f csv_line = "(string \<times> 'f json) list"

text \<open>\<^verbatim>\<open>dest\<close> of the three functions below is the dictionary of the primary line, or the
  list of additional lines, to which a new dictionary is appended.\<close>

datatype 'f dest = IntoDict "'f csv_line" | IntoList "'f csv_line list"

definition target_dict :: "'f dest \<Rightarrow> 'f csv_line" where
  "target_dict dest = (case dest of IntoDict d \<Rightarrow> d | IntoList ls \<Rightarrow> [])"

definition store_dict :: "'f dest \<Rightarrow> 'f csv_line \<Rightarrow> 'f dest" where
  "store_dict dest d = (case dest of IntoDict _ \<Rightarrow> IntoDict d | IntoList ls \<Rightarrow> IntoList (ls @ [d]))"

definition convert_identifier :: "('f \<Rightarrow> string) \<Rightarrow> 'f json \<Rightarrow> 'f dest \<Rightarrow> 'f json
     \<Rightarrow> error + 'f dest" where
  "convert_identifier S identifier dest external_id =
     andthen (py_item identifier ''type'') (\<lambda>t.
     andthen (py_item identifier ''value'') (\<lambda>v.
     andthen (py_item identifier ''issuingBody'') (\<lambda>b.
       Inr (store_dict dest
              (AList.update ''externalId'' external_id
              (AList.update ''identifiers.issuingBody'' (JStr (convert_value S b))
              (AList.update ''identifiers.value'' (JStr (convert_value S v))
              (AList.update ''identifiers.type'' (JStr (convert_value S t))
                 (target_dict dest)))))))))"

definition convert_states :: "('f \<Rightarrow> string) \<Rightarrow> 'f json \<Rightarrow> 'f dest \<Rightarrow> 'f json \<Rightarrow> string
     \<Rightarrow> error + 'f dest" where
  "convert_states S state dest external_id full_key =
     andthen (py_item state ''validFrom'') (\<lambda>f.
     andthen (py_item state ''validTo'') (\<lambda>t.
     andthen (py_item state ''type'') (\<lambda>ty.
       Inr (store_dict dest
              (AList.update ''externalId'' external_id
              (AList.update (full_key @ ''.type'') (JStr (convert_value S ty))
              (AList.update (full_key @ ''.validTo'') (JStr (convert_value S t))
              (AList.update (full_key @ ''.validFrom'') (JStr (convert_value S f))
                 (target_dict dest)))))))))"

definition convert_roles :: "('f \<Rightarrow> string) \<Rightarrow> 'f json \<Rightarrow> 'f dest \<Rightarrow> 'f json \<Rightarrow> error + 'f dest" where
  "convert_roles S role dest external_id =
     Inr (store_dict dest
            (AList.update ''externalId'' external_id
            (AList.update ''roles'' (JStr (convert_value S role)) (target_dict dest))))"

text \<open>The pattern of lines 112 to 131: the first element goes to the primary line, every
  other element to a line of its own.\<close>

definition into_dict :: "('f dest \<Rightarrow> error + 'f dest) \<Rightarrow> 'f csv_line \<Rightarrow> error + 'f csv_line" where
  "into_dict f d = andthen (f (IntoDict d)) (\<lambda>r. Inr (target_dict r))"

definition into_list :: "('f dest \<Rightarrow> error + 'f dest) \<Rightarrow> 'f csv_line list \<Rightarrow> error + 'f csv_line list" where
  "into_list f ls =
     andthen (f (IntoList ls)) (\<lambda>r. Inr (case r of IntoList ls' \<Rightarrow> ls' | IntoDict _ \<Rightarrow> ls))"

definition first_and_rest :: "('f json \<Rightarrow> 'f dest \<Rightarrow> error + 'f dest) \<Rightarrow> 'f json
     \<Rightarrow> 'f csv_line \<times> 'f csv_line list \<Rightarrow> error + ('f csv_line \<times> 'f csv_line list)" where
  "first_and_rest conv v s =
     (case s of (dest, additional_lines) \<Rightarrow>
        andthen (py_len v) (\<lambda>n.
        andthen (if n > 0 then andthen (py_first v) (\<lambda>x. into_dict (conv x) dest) else Inr dest) (\<lambda>dest'.
        andthen (py_rest v) (\<lambda>xs.
        andthen (foldE (\<lambda>x ls. into_list (conv x) ls) xs additional_lines) (\<lambda>ls.
          Inr (dest', ls))))))"

text \<open>Lines 105 to 110: the name parts, all into the primary line.\<close>

definition name_part :: "('f \<Rightarrow> string) \<Rightarrow> 'f json \<Rightarrow> nat \<times> 'f csv_line \<Rightarrow> error + (nat \<times> 'f csv_line)" where
  "name_part S part s =
     (case s of (num, dest) \<Rightarrow>
        Inr (num + 1, AList.update (''name'' @ str_nat (num + 1)) (JStr (convert_value S part)) dest))"

section \<open>convert\_json.py: convert\_record and convert\<close>

definition map_abbreviations :: "string \<Rightarrow> string" where
  "map_abbreviations key =
     (if key = ''physicalPostalAddress'' then ''physical''
      else if key = ''alternativePostalAddress'' then ''alternative''
      else key)"

text \<open>The state of the conversion: \<open>dest\<close>, \<open>additional_lines\<close> and \<open>unknown_keys\<close>, a set
  kept as the list of its members.\<close>

type_synonym 'f conv_state = "'f csv_line \<times> 'f csv_line list \<times> string list"

fun convert_record :: "('f \<Rightarrow> string) \<Rightarrow> (string \<times> 'f json) list \<Rightarrow> 'f json
     \<Rightarrow> (string \<rightharpoonup> column) \<Rightarrow> string \<Rightarrow> 'f conv_state \<Rightarrow> error + 'f conv_state"
and convert_entry :: "('f \<Rightarrow> string) \<Rightarrow> string \<Rightarrow> 'f json \<Rightarrow> 'f json
     \<Rightarrow> (string \<rightharpoonup> column) \<Rightarrow> string \<Rightarrow> 'f conv_state \<Rightarrow> error + 'f conv_state" where
  "convert_record S [] external_id column_name_to_column path s = Inr s"
| "convert_record S (kv # kvs) external_id column_name_to_column path s =
     (case convert_entry S (fst kv) (snd kv) external_id column_name_to_column path s of
        Inl e \<Rightarrow> Inl e
      | Inr s' \<Rightarrow> convert_record S kvs external_id column_name_to_column path s')"
| "convert_entry S key v external_id column_name_to_column path s =
     (case s of (dest, additional_lines, unknown_keys) \<Rightarrow>
       (let full_key = path @ map_abbreviations key
        in if full_key = ''nameParts'' then
             andthen (py_iter v) (\<lambda>parts.
             andthen (foldE (name_part S) parts (0, dest)) (\<lambda>(num, dest').
               Inr (dest', additional_lines, unknown_keys)))
           else if full_key = ''identifiers'' then
             andthen (first_and_rest (\<lambda>x d. convert_identifier S x d external_id) v
                        (dest, additional_lines)) (\<lambda>(dest', ls).
               Inr (dest', ls, unknown_keys))
           else if full_key = ''states'' \<or> endswith full_key ''.states'' then
             andthen (first_and_rest (\<lambda>x d. convert_states S x d external_id full_key) v
                        (dest, additional_lines)) (\<lambda>(dest', ls).
               Inr (dest', ls, unknown_keys))
           else if full_key = ''roles'' then
             andthen (first_and_rest (\<lambda>x d. convert_roles S x d external_id) v
                        (dest, additional_lines)) (\<lambda>(dest', ls).
               Inr (dest', ls, unknown_keys))
           else
             (case v of
                JDict kvs \<Rightarrow>
                  convert_record S kvs external_id column_name_to_column (full_key @ ''.'') s
              | JList xs \<Rightarrow>
                  Inr (AList.update full_key (JStr ''internal error 1'') dest,
                       additional_lines, unknown_keys)
              | _ \<Rightarrow>
                  (if column_name_to_column full_key \<noteq> None
                   then Inr (AList.update full_key (JStr (convert_value S v)) dest,
                             additional_lines, unknown_keys)
                   else if v \<noteq> JNull
                   then Inr (dest, additional_lines, List.insert full_key unknown_keys)
                   else Inr s))))"

text \<open>One record of \<^verbatim>\<open>convert\<close>, lines 66 to 72. The state is \<open>records\<close> and
  \<open>unknown_keys\<close>.\<close>

definition convert_input_record :: "('f \<Rightarrow> string) \<Rightarrow> (string \<rightharpoonup> column) \<Rightarrow> 'f json
     \<Rightarrow> 'f csv_line list \<times> string list \<Rightarrow> error + ('f csv_line list \<times> string list)" where
  "convert_input_record S column_name_to_column input_record s =
     (case s of (records, unknown_keys) \<Rightarrow>
        andthen (py_item input_record ''externalId'') (\<lambda>external_id.
        andthen (case input_record of
                   JDict kvs \<Rightarrow>
                     convert_record S kvs external_id column_name_to_column [] ([], [], unknown_keys)
                 | _ \<Rightarrow> Inl (AttributeError ''items'')) (\<lambda>(dest, additional_lines, unknown_keys').
          Inr (records @ [dest] @ additional_lines, unknown_keys'))))"

text \<open>\<^verbatim>\<open>convert_json.convert\<close>. The result is the lines and the names of the header fields;
  the third component is what the function logs, one warning for each unknown key, sorted.\<close>

definition convert_json :: "('f \<Rightarrow> string) \<Rightarrow> 'f json list
     \<Rightarrow> error + ('f csv_line list \<times> string list \<times> string list)" where
  "convert_json S data =
     andthen get_csv_header (\<lambda>columns.
       (let csv_header = map column_name columns;
            column_name_to_column = header_dict columns
        in andthen (foldE (convert_input_record S column_name_to_column) data ([], [])) (\<lambda>(records, unknown_keys).
             Inr (records, csv_header, sort unknown_keys))))"

section \<open>Example inputs\<close>

text \<open>An instance of the builtins for the examples: a float and a datetime are given by
  their printed form, and the parsers know the few literals the examples use.\<close>

definition example_builtins :: "(string, string) builtins" where
  "example_builtins =
     \<lparr>py_int = (\<lambda>s. if s = ''42'' then Some 42 else None),
      py_float = (\<lambda>s. if s = ''3.14'' then Some ''3.14'' else None),
      py_fromisoformat = (\<lambda>s. if s = ''2024-01-01'' then Some ''2024-01-01 00:00:00'' else None)\<rparr>"

definition example_str_float :: "string \<Rightarrow> string" where
  "example_str_float x = x"

definition example_column :: "column_type \<Rightarrow> empty_policy \<Rightarrow> column" where
  "example_column ty emp =
     \<lparr>column_name = ''x'', column_type = ty, empty = emp, optional = True,
      destination_name = ''x'', destination_name_provided = False\<rparr>"

text \<open>A call of the reader with the identifier and the two coordinates of the physical
  address, declared as in \<open>get_csv_header\<close>, and with the two coordinates as related
  columns, given by name as \<^verbatim>\<open>convert_csv.convert\<close> gives them.\<close>

definition coordinates_header :: "column list" where
  "coordinates_header =
     [\<lparr>column_name = ''externalId'', column_type = TStr, empty = NotOK,
       optional = False, destination_name = ''externalId'',
       destination_name_provided = False\<rparr>,
      \<lparr>column_name = ''address.physical.geographicCoordinates.longitude'', column_type = TFloat,
       empty = ToNone, optional = True,
       destination_name = ''address_physical_geographicCoordinates_longitude'',
       destination_name_provided = False\<rparr>,
      \<lparr>column_name = ''address.physical.geographicCoordinates.latitude'', column_type = TFloat,
       empty = ToNone, optional = True,
       destination_name = ''address_physical_geographicCoordinates_latitude'',
       destination_name_provided = False\<rparr>]"

definition coordinates_args :: "(string, string) reader_args" where
  "coordinates_args =
     \<lparr>header = coordinates_header, make_objects = MakeTrue, space_handling = Collapse,
      ignore_unknown_columns = False,
      related_columns = [[ByName ''address.physical.geographicCoordinates.longitude'',
                          ByName ''address.physical.geographicCoordinates.latitude'']],
      identifier_column = Some ''externalId'', array_groups = []\<rparr>"

text \<open>The call of the reader in \<^verbatim>\<open>sharing_state_csv.get_external_ids\<close>, and what the reader
  has computed for it after the header line \<open>externalId\<close>.\<close>

definition external_ids_args :: "(string, string) reader_args" where
  "external_ids_args =
     \<lparr>header = [\<lparr>column_name = ''externalId'', column_type = TStr, empty = NotOK,
                  optional = False, destination_name = ''externalId'',
                  destination_name_provided = False\<rparr>],
      make_objects = MakeFalse, space_handling = Collapse, ignore_unknown_columns = True,
      related_columns = [], identifier_column = Some ''externalId'', array_groups = []\<rparr>"

definition external_ids_env :: "(string, string) env" where
  "external_ids_env =
     \<lparr>args = external_ids_args, array_column_name_to_array_index = Map.empty,
      header_field_count = 1,
      column_to_column_index = [(\<lparr>column_name = ''externalId'', column_type = TStr, empty = NotOK,
                  optional = False, destination_name = ''externalId'',
                  destination_name_provided = False\<rparr>, 0)],
      column_index_to_column = [(0, \<lparr>column_name = ''externalId'', column_type = TStr, empty = NotOK,
                  optional = False, destination_name = ''externalId'',
                  destination_name_provided = False\<rparr>)],
      column_name_to_index = [(''externalId'', 0)],
      identifier_column_index = Some 0\<rparr>"

text \<open>A call of the reader with two array groups, \<open>identifiers\<close> with a prefix and the class
  \<open>CSVIdentifiers\<close>, and the single column \<open>roles\<close>; what the reader has computed after the
  header line; a first row, and the state after it.\<close>

definition groups_header :: "column list" where
  "groups_header =
     [\<lparr>column_name = ''externalId'', column_type = TStr, empty = NotOK, optional = False,
       destination_name = ''externalId'', destination_name_provided = False\<rparr>,
      \<lparr>column_name = ''name1'', column_type = TStr, empty = NotOK, optional = False,
       destination_name = ''name1'', destination_name_provided = False\<rparr>,
      \<lparr>column_name = ''identifiers.type'', column_type = TStr, empty = NotOK, optional = True,
       destination_name = ''identifiers_type'', destination_name_provided = False\<rparr>,
      \<lparr>column_name = ''identifiers.value'', column_type = TStr, empty = NotOK, optional = True,
       destination_name = ''identifiers_value'', destination_name_provided = False\<rparr>,
      \<lparr>column_name = ''roles'', column_type = TEnum Roles, empty = ToNone, optional = True,
       destination_name = ''roles'', destination_name_provided = False\<rparr>]"

definition groups_args :: "(string, string) reader_args" where
  "groups_args =
     \<lparr>header = groups_header, make_objects = MakeTrue, space_handling = Collapse,
      ignore_unknown_columns = False, related_columns = [],
      identifier_column = Some ''externalId'',
      array_groups =
        [\<lparr>name = ''identifiers'', prefix = Some ''identifiers.'', make_type = Some CSVIdentifiers\<rparr>,
         \<lparr>name = ''roles'', prefix = None, make_type = None\<rparr>]\<rparr>"

definition groups_headerline :: "string list" where
  "groups_headerline = [''externalId'', ''name1'', ''identifiers.type'', ''identifiers.value'', ''roles'']"

definition groups_env :: "(string, string) env" where
  "groups_env =
     \<lparr>args = groups_args,
      array_column_name_to_array_index =
        [''identifiers.type'' \<mapsto> 0, ''identifiers.value'' \<mapsto> 0, ''roles'' \<mapsto> 1],
      header_field_count = 5,
      column_to_column_index = zip groups_header [0, 1, 2, 3, 4],
      column_index_to_column = zip [0, 1, 2, 3, 4] groups_header,
      column_name_to_index = zip groups_headerline [0, 1, 2, 3, 4],
      identifier_column_index = Some 0\<rparr>"

definition groups_first_row :: "string list" where
  "groups_first_row = [''A1'', ''Acme'', ''LEI'', ''1234'', ''SUPPLIER'']"

definition groups_first_state :: "(string, string) state" where
  "groups_first_state =
     \<lparr>line = 2,
      result =
        [VObj [(''identifiers'',
                VList [VObj [(''type'', VStr ''LEI''), (''value'', VStr ''1234''),
                             (''issuingBody'', VNone)]]),
               (''roles'', VList [VEnum ''SUPPLIER'']),
               (''externalId'', VStr ''A1''), (''name1'', VStr ''Acme'')]],
      previous_identifier = Some ''A1'', done_identifiers = {''A1''}\<rparr>"





section \<open>The conversion of a cell\<close>


text \<open>
  C8. In a float column the cell \<open>3,14\<close> decodes to the float that \<^verbatim>\<open>float("3.14")\<close> is, and so
  does \<open>3.14\<close>; a cell that \<^verbatim>\<open>float()\<close> rejects after its commas have been replaced by dots
  raises the error that names the line, the column and the cell. The encoder prints that
  float, whose \<^verbatim>\<open>str()\<close> is \<open>3.14\<close>, as \<open>3,14\<close>.
\<close>

theorem float_decimal_comma_round_trip:
  assumes "column_type col = TFloat"
    and "py_float B ''3.14'' = Some x"
    and "py_str_float x = ''3.14''"
  shows "convert_cell B ln col ''3,14'' = Inr (VFloat x, False) \<and>
         convert_cell B ln col ''3.14'' = Inr (VFloat x, False) \<and>
         convert_value py_str_float (JFloat x) = ''3,14'' \<and>
         (\<forall>v. v \<noteq> [] \<and> py_float B (replace_char CHR '','' CHR ''.'' v) = None \<longrightarrow>
              convert_cell B ln col v = Inl (NotAFloat ln (column_name col) v))"
  using assms
  by (simp add: convert_cell_def empty_handling_def andthen_def type_conversion_def
      replace_char_def convert_value_def)

theorem float_decimal_comma_round_trip_witness:
  "convert_cell example_builtins 2 (example_column TFloat ToNone) ''3,14'' = Inr (VFloat ''3.14'', False) \<and>
   convert_value example_str_float (JFloat ''3.14'') = ''3,14'' \<and>
   convert_cell example_builtins 2 (example_column TFloat ToNone) ''3;14'' = Inl (NotAFloat 2 ''x'' ''3;14'')"
proof -
  have c: "column_type (example_column TFloat ToNone) = TFloat"
    by (simp add: example_column_def)
  have f: "py_float example_builtins ''3.14'' = Some ''3.14''"
    by (simp add: example_builtins_def)
  have s: "example_str_float ''3.14'' = ''3.14''"
    by (simp add: example_str_float_def)
  have n: "''3;14'' \<noteq> [] \<and> py_float example_builtins (replace_char CHR '','' CHR ''.'' ''3;14'') = None"
    by (simp add: example_builtins_def replace_char_def)
  note t = float_decimal_comma_round_trip [of "example_column TFloat ToNone" example_builtins
      "''3.14''" example_str_float 2, OF c f s]
  from t have a: "convert_cell example_builtins 2 (example_column TFloat ToNone) ''3,14'' = Inr (VFloat ''3.14'', False)"
    by blast
  from t have b: "convert_value example_str_float (JFloat ''3.14'') = ''3,14''"
    by blast
  from t n have "convert_cell example_builtins 2 (example_column TFloat ToNone) ''3;14''
      = Inl (NotAFloat 2 (column_name (example_column TFloat ToNone)) ''3;14'')"
    by blast
  then have d: "convert_cell example_builtins 2 (example_column TFloat ToNone) ''3;14'' = Inl (NotAFloat 2 ''x'' ''3;14'')"
    by (simp add: example_column_def)
  from a b d show ?thesis by simp
qed

(*HEAVY-BEGIN*)
section \<open>The decoder of the upload\<close>

lemma get_csv_header_value: "get_csv_header = Inr csv_header_columns"
  by code_simp

lemma domain_schema_checks:
  "check_unique {} csv_header_columns = Inr () \<and>
   check_empty_ok csv_header_columns = Inr () \<and>
   get_all_columns csv_header_columns ''address.physical.geographicCoordinates.l'' =
     Inr [ByName ''address.physical.geographicCoordinates.longitude'',
          ByName ''address.physical.geographicCoordinates.latitude''] \<and>
   get_all_columns csv_header_columns ''address.alternative.geographicCoordinates.l'' =
     Inr [ByName ''address.alternative.geographicCoordinates.longitude'',
          ByName ''address.alternative.geographicCoordinates.latitude''] \<and>
   header_dict csv_header_columns ''address.physical.geographicCoordinates.longitude'' \<noteq> None \<and>
   header_dict csv_header_columns ''address.physical.geographicCoordinates.latitude'' \<noteq> None \<and>
   header_dict csv_header_columns ''address.alternative.geographicCoordinates.longitude'' \<noteq> None \<and>
   header_dict csv_header_columns ''address.alternative.geographicCoordinates.latitude'' \<noteq> None \<and>
   header_dict csv_header_columns ''externalId'' \<noteq> None \<and>
   (case make_array_column_name_to_array_index (header_dict csv_header_columns) csv_header_columns
           (convert_csv_array_groups :: ('f, 'd) array_group list) of
      Inl e \<Rightarrow> e = UnknownArrayPrefix ''legalEntity.states.''
    | Inr m \<Rightarrow> False)"
  by code_simp

lemma convert_csv_unknown_array_prefix:
  fixes B :: "('f, 'd) builtins"
  shows "convert_csv B reader = Inl (UnknownArrayPrefix ''legalEntity.states.'')"
proof -
  note c = domain_schema_checks [where 'f = 'f and 'd = 'd]
  have a: "make_array_column_name_to_array_index (header_dict csv_header_columns) csv_header_columns
           (convert_csv_array_groups :: ('f, 'd) array_group list)
         = Inl (UnknownArrayPrefix ''legalEntity.states.'')"
    using c by (simp split: sum.splits)
  have r: "check_related_columns (header_dict csv_header_columns)
      [[ByName ''address.physical.geographicCoordinates.longitude'',
          ByName ''address.physical.geographicCoordinates.latitude''],
       [ByName ''address.alternative.geographicCoordinates.longitude'',
          ByName ''address.alternative.geographicCoordinates.latitude'']] = Inr ()"
    using c by (simp add: check_related_columns_def check_related_member_def)
  have i: "check_identifier_column (header_dict csv_header_columns) (Some ''externalId'') = Inr ()"
    using c by (simp add: check_identifier_column_def)
  show ?thesis
    using c
    by (cases reader)
      (simp_all add: convert_csv_def read_header_csv_with_reader_def prepare_def
        get_csv_header_value a r i andthen_def Let_def)
qed

text \<open>
  C4. The scenario of the specification: the header line \<open>externalId\<close>, \<open>name1\<close>,
  \<open>identifiers.type\<close>, \<open>identifiers.value\<close>, \<open>isOwnCompanyData\<close> and two lines for \<open>A1\<close>.
  \<^verbatim>\<open>convert_csv.convert\<close> does not return a record for it: the array group
  \<open>legalEntity_states\<close> has the prefix \<open>legalEntity.states.\<close>, no column of
  \<open>get_csv_header\<close> starts with it, and the reader raises before it reads the header line
  (lemma \<open>convert_csv_unknown_array_prefix\<close>: it does so for every file).
\<close>

theorem decode_scenario_fails:
  "convert_csv example_builtins
     [[''externalId'', ''name1'', ''identifiers.type'', ''identifiers.value'', ''isOwnCompanyData''],
      [''A1'', ''Acme'', ''LEI'', ''1234'', ''true''],
      [''A1'', '''', ''TAX'', ''999'', '''']]
   = Inl (UnknownArrayPrefix ''legalEntity.states.'')"
  by (rule convert_csv_unknown_array_prefix)

(*HEAVY-END*)
section \<open>Related columns\<close>

text \<open>The check of the related columns never raises: the reader only starts on the rows
  when every member of every set is a name, and a name is never found among the keys of
  \<open>column_to_column_index\<close>.\<close>

lemma foldE_all_ok: "(\<And>x s. x \<in> set xs \<Longrightarrow> f x s = Inr s) \<Longrightarrow> foldE f xs s = Inr s"
  by (induction xs arbitrary: s) auto

lemma foldE_Inr_D: "foldE f xs s = Inr s' \<Longrightarrow> x \<in> set xs \<Longrightarrow> \<exists>t t'. f x t = Inr t'"
proof (induction xs arbitrary: s)
  case Nil then show ?case by simp
next
  case (Cons y ys)
  then show ?case by (fastforce split: sum.splits)
qed

lemma check_related_columns_names:
  assumes "check_related_columns hdict rcss = Inr ()" and "related \<in> set rcss" and "m \<in> set related"
  shows "\<exists>s. m = ByName s"
proof -
  have "m \<in> set (concat rcss)" using assms by auto
  with assms(1) obtain t t' where "check_related_member hdict m = Inr t'"
    unfolding check_related_columns_def by (blast dest: foldE_Inr_D)
  then show ?thesis by (cases m) (simp_all add: check_related_member_def)
qed

lemma prepare_related:
  assumes "prepare a headerline = Inr E"
  shows "args E = a \<and> check_related_columns (header_dict (header a)) (related_columns a) = Inr ()"
  using assms
  by (auto simp: prepare_def andthen_def Let_def split: sum.splits prod.splits)

lemma related_check_never_raises:
  assumes "prepare a headerline = Inr E"
  shows "foldE (check_related_row E ln row) (related_columns (args E)) () = Inr ()"
proof (rule foldE_all_ok)
  fix related u
  assume r: "related \<in> set (related_columns (args E))"
  from prepare_related [OF assms]
  have "\<forall>m \<in> set related. \<exists>s. m = ByName s"
    using r check_related_columns_names by metis
  then have "\<forall>m \<in> set related. empty_state_of E row m = False"
    by (auto simp: empty_state_of_def)
  then have "\<not> list_ex id (map (empty_state_of E row) related)"
    by (simp add: list_ex_iff)
  then show "check_related_row E ln row related u = Inr u"
    by (simp add: check_related_row_def Let_def)
qed
(*HEAVY-BEGIN*)
text \<open>
  C1. A row on which one column of a set of related columns is set and the other one is
  empty should be rejected. It is not: with longitude and latitude of the physical address
  as related columns, the line with longitude \<open>3,14\<close> and an empty latitude is decoded
  into a record whose latitude is \<open>None\<close>.
\<close>

theorem related_columns_mixed_row_accepted:
  "map_sum id fst
     (read_header_csv_with_reader example_builtins coordinates_args
        [[''externalId'', ''address.physical.geographicCoordinates.longitude'',
          ''address.physical.geographicCoordinates.latitude''],
         [''A1'', ''3,14'', []]])
   = Inr [VObj [(''externalId'', VStr ''A1''),
                (''address_physical_geographicCoordinates_longitude'', VFloat ''3.14''),
                (''address_physical_geographicCoordinates_latitude'', VNone)]]"
  by code_simp

(*HEAVY-END*)
section \<open>The rows of a file\<close>

text \<open>After the rows that were read, the state holds the line number, the identifiers seen
  and the identifier of the last row.\<close>

lemma foldE_append:
  "foldE f (xs @ ys) s = (case foldE f xs s of Inl e \<Rightarrow> Inl e | Inr s' \<Rightarrow> foldE f ys s')"
  by (induction xs arbitrary: s) (auto split: sum.splits)

lemma prepare_fields:
  assumes "prepare a headerline = Inr E"
  shows "args E = a" and "header_field_count E = length headerline"
  using assms
  by (auto simp: prepare_def andthen_def Let_def split: sum.splits prod.splits)

lemma process_row_fields:
  assumes "process_row B E row st = Inr st'" and "identifier_column_index E = Some i"
    and "\<And>x. previous_identifier st = Some x \<Longrightarrow> x \<in> done_identifiers st"
  shows "line st' = line st + 1"
    and "previous_identifier st' = Some (space_handled E row ! i)"
    and "done_identifiers st' = insert (space_handled E row ! i) (done_identifiers st)"
  using assms
  by (auto simp: process_row_def determine_newdest_def andthen_def Let_def
      split: if_splits sum.splits prod.splits)

lemma rows_state:
  assumes "foldE (process_row B E) rows initial_state = Inr st"
    and "identifier_column_index E = Some i"
  shows "line st = length rows + 1 \<and>
         done_identifiers st = (\<lambda>r. space_handled E r ! i) ` set rows \<and>
         previous_identifier st = (if rows = [] then None else Some (space_handled E (last rows) ! i))"
  using assms(1)
proof (induction rows arbitrary: st rule: rev_induct)
  case Nil
  then show ?case by (auto simp: initial_state_def)
next
  case (snoc r rs)
  from snoc.prems obtain s where s: "foldE (process_row B E) rs initial_state = Inr s"
    and r: "process_row B E r s = Inr st"
    by (auto simp: foldE_append split: sum.splits)
  note ih = snoc.IH [OF s]
  have p: "\<And>x. previous_identifier s = Some x \<Longrightarrow> x \<in> done_identifiers s"
    using ih by (auto split: if_splits)
  from ih process_row_fields [OF r assms(2) p]
  show ?case by auto
qed

lemma process_row_related:
  assumes "prepare a headerline = Inr E" and "length row = length headerline"
  shows "process_row B E row st =
     andthen (determine_newdest E st (line st + 1) (space_handled E row)) (\<lambda>(newdest, prev, seen).
       andthen (if newdest then new_record B E (line st + 1) (space_handled E row) (result st)
                else continuation B E (line st + 1) (space_handled E row) (result st)) (\<lambda>res.
         Inr \<lparr>line = line st + 1, result = res, previous_identifier = prev,
              done_identifiers = seen\<rparr>))"
  using assms related_check_never_raises [OF assms(1)] prepare_fields [OF assms(1)]
  by (auto simp: process_row_def Let_def andthen_def split: sum.splits prod.splits)

lemma read_rows_split:
  assumes "prepare a headerline = Inr E"
    and "foldE (process_row B E) before initial_state = Inr st"
    and "process_row B E row st = Inl e"
  shows "read_header_csv_with_reader B a (headerline # before @ row # after) = Inl e"
  using assms
  by (simp add: read_header_csv_with_reader_def andthen_def foldE_append)

lemma external_ids_prepare: "prepare external_ids_args [''externalId''] = Inr external_ids_env"
  by (simp add: prepare_def external_ids_args_def external_ids_env_def andthen_def header_dict_def
      check_related_columns_def check_identifier_column_def make_array_column_name_to_array_index_def
      header_line_step_def strip_def isspace_def lookup_identifier_column_def enumerate_eq_zip Let_def)

text \<open>
  C6. With an identifier column, a row whose identifier differs from the identifier of the
  row before it and is the identifier of an earlier row makes the reader fail with the
  error for a duplicate identifier, which names the line; the rows before are rows that
  the reader accepts, and the row has as many fields as the header line. The identifier
  of a row is its cell in the identifier column after the space handling. Example: the
  rows \<open>A1\<close>, \<open>B1\<close>, \<open>A1\<close>.
\<close>

theorem non_contiguous_identifier_rejected:
  assumes "prepare a headerline = Inr E"
    and "identifier_column_index E = Some i"
    and "foldE (process_row B E) before initial_state = Inr st"
    and "length row = length headerline"
    and "before \<noteq> []"
    and "space_handled E (last before) ! i \<noteq> space_handled E row ! i"
    and "space_handled E row ! i \<in> (\<lambda>r. space_handled E r ! i) ` set before"
  shows "read_header_csv_with_reader B a (headerline # before @ row # after)
         = Inl (DuplicateIdentifier (length before + 2) (space_handled E row ! i))"
proof -
  note s = rows_state [OF assms(3) assms(2)]
  have "determine_newdest E st (line st + 1) (space_handled E row)
        = Inl (DuplicateIdentifier (length before + 2) (space_handled E row ! i))"
    using s assms(2,5,6,7) by (auto simp: determine_newdest_def Let_def)
  then have "process_row B E row st
        = Inl (DuplicateIdentifier (length before + 2) (space_handled E row ! i))"
    by (simp add: process_row_related [OF assms(1) assms(4)] andthen_def)
  then show ?thesis by (rule read_rows_split [OF assms(1) assms(3)])
qed

theorem non_contiguous_identifier_rejected_witness:
  "read_header_csv_with_reader example_builtins external_ids_args
     [[''externalId''], [''A1''], [''B1''], [''A1'']]
   = Inl (DuplicateIdentifier 4 ''A1'')"
proof -
  have r: "foldE (process_row example_builtins external_ids_env) [[''A1''], [''B1'']] initial_state
      = Inr \<lparr>line = 3, result = [VList [VStr ''A1''], VList [VStr ''B1'']],
             previous_identifier = Some ''B1'', done_identifiers = {''B1'', ''A1''}\<rparr>"
    by code_simp
  have h: "space_handled external_ids_env [''A1''] = [''A1'']" "space_handled external_ids_env [''B1''] = [''B1'']"
    by code_simp+
  show ?thesis
    using non_contiguous_identifier_rejected [OF external_ids_prepare _ r, of 0 "[''A1'']" "[]"] h
    by (simp add: external_ids_env_def)
qed

section \<open>Continuation lines\<close>

text \<open>The loop over the cells of a continuation line either raises for a column that must
  not be set, or returns the array groups and the array columns that have data.\<close>

lemma continuation_cells_error:
  "foldE (check_continuation_cell E ln row) cols s = Inl e \<Longrightarrow> \<exists>n. e = NotAllowedInContinuation ln n"
proof (induction cols arbitrary: s)
  case Nil
  then show ?case by simp
next
  case (Cons ic cols)
  then show ?case
    by (cases ic; cases s)
       (auto simp: check_continuation_cell_def split: sum.splits if_splits option.splits)
qed

lemma continuation_cells_not_allowed:
  assumes "(j, c) \<in> set cols" and "row ! j \<noteq> []"
    and "array_column_name_to_array_index E (column_name c) = None"
    and "Some j \<noteq> identifier_column_index E"
  shows "\<exists>n. foldE (check_continuation_cell E ln row) cols s = Inl (NotAllowedInContinuation ln n)"
  using assms(1)
proof (induction cols arbitrary: s)
  case Nil
  then show ?case by simp
next
  case (Cons ic cols)
  show ?case
  proof (cases "check_continuation_cell E ln row ic s")
    case (Inl e)
    then have "\<exists>n. e = NotAllowedInContinuation ln n"
      by (cases ic; cases s)
         (auto simp: check_continuation_cell_def split: if_splits option.splits)
    with Inl show ?thesis by auto
  next
    case (Inr s')
    then have "ic \<noteq> (j, c)"
      using assms(2,3,4) by (cases s) (auto simp: check_continuation_cell_def)
    with Cons.prems have "(j, c) \<in> set cols" by simp
    from Cons.IH [OF this, of s'] Inr show ?thesis by simp
  qed
qed

lemma continuation_cells_groups:
  assumes "foldE (check_continuation_cell E ln row) cols (h, cur) = Inr (h', cur')"
  shows "set h' = set h \<union> {g. \<exists>(j, c) \<in> set cols. row ! j \<noteq> [] \<and>
                                  array_column_name_to_array_index E (column_name c) = Some g}
         \<and> (distinct h \<longrightarrow> distinct h')
         \<and> cur' = cur \<union> {column_name c |j c. (j, c) \<in> set cols \<and> row ! j \<noteq> [] \<and>
                                  array_column_name_to_array_index E (column_name c) \<noteq> None}"
  using assms
proof (induction cols arbitrary: h cur)
  case Nil
  then show ?case by simp
next
  case (Cons ic cols)
  obtain j c where ic: "ic = (j, c)" by (cases ic)
  from Cons.prems obtain h1 cur1 where
    step: "check_continuation_cell E ln row (j, c) (h, cur) = Inr (h1, cur1)"
    and rest: "foldE (check_continuation_cell E ln row) cols (h1, cur1) = Inr (h', cur')"
    by (auto simp: ic split: sum.splits)
  note ih = Cons.IH [OF rest]
  show ?case
  proof (cases "row ! j = []")
    case True
    with step have "h1 = h" "cur1 = cur" by (auto simp: check_continuation_cell_def)
    with ih True show ?thesis by (auto simp: ic)
  next
    case False
    show ?thesis
    proof (cases "array_column_name_to_array_index E (column_name c)")
      case None
      with step False have "h1 = h" "cur1 = cur"
        by (auto simp: check_continuation_cell_def split: if_splits)
      with ih None show ?thesis by (auto simp: ic)
    next
      case (Some g)
      with step False have "h1 = List.insert g h" "cur1 = insert (column_name c) cur"
        by (auto simp: check_continuation_cell_def)
      with ih Some False show ?thesis by (auto simp: ic)
    qed
  qed
qed

lemma check_continuation_fails:
  assumes "(\<forall>(j, c) \<in> set (column_index_to_column E).
               row ! j \<noteq> [] \<longrightarrow> array_column_name_to_array_index E (column_name c) = None)
         \<or> (\<exists>j c g j' c' g'. (j, c) \<in> set (column_index_to_column E) \<and> row ! j \<noteq> [] \<and>
               array_column_name_to_array_index E (column_name c) = Some g \<and>
               (j', c') \<in> set (column_index_to_column E) \<and> row ! j' \<noteq> [] \<and>
               array_column_name_to_array_index E (column_name c') = Some g' \<and> g \<noteq> g')
         \<or> (\<exists>j c. (j, c) \<in> set (column_index_to_column E) \<and> row ! j \<noteq> [] \<and>
               array_column_name_to_array_index E (column_name c) = None \<and>
               Some j \<noteq> identifier_column_index E)"
  shows "(\<exists>n. check_continuation E ln row = Inl (NotAllowedInContinuation ln n))
       \<or> check_continuation E ln row = Inl (OnlyOneArrayGroup ln (map name (array_groups (args E))))
       \<or> check_continuation E ln row = Inl (NoArrayGroup ln (map name (array_groups (args E))))"
proof (cases "foldE (check_continuation_cell E ln row) (column_index_to_column E) ([], {})")
  case (Inl e)
  then show ?thesis
    using continuation_cells_error [OF Inl] by (auto simp: check_continuation_def andthen_def)
next
  case (Inr s)
  obtain h cur where s: "s = (h, cur)" by (cases s)
  note g = continuation_cells_groups [OF Inr [unfolded s]]
  from assms consider
      (zero) "\<forall>(j, c) \<in> set (column_index_to_column E).
               row ! j \<noteq> [] \<longrightarrow> array_column_name_to_array_index E (column_name c) = None"
    | (two) j c g j' c' g' where "(j, c) \<in> set (column_index_to_column E)" "row ! j \<noteq> []"
               "array_column_name_to_array_index E (column_name c) = Some g"
               "(j', c') \<in> set (column_index_to_column E)" "row ! j' \<noteq> []"
               "array_column_name_to_array_index E (column_name c') = Some g'" "g \<noteq> g'"
    | (bad) j c where "(j, c) \<in> set (column_index_to_column E)" "row ! j \<noteq> []"
               "array_column_name_to_array_index E (column_name c) = None"
               "Some j \<noteq> identifier_column_index E"
    by blast
  then show ?thesis
  proof cases
    case zero
    with g have "set h = {}" by auto
    then have "h = []" by simp
    with Inr s show ?thesis by (simp add: check_continuation_def andthen_def)
  next
    case two
    with g have "g \<in> set h" "g' \<in> set h" by auto
    with \<open>g \<noteq> g'\<close> have "length h > 1"
      by (cases h; cases "tl h") auto
    with Inr s show ?thesis by (simp add: check_continuation_def andthen_def)
  next
    case bad
    from continuation_cells_not_allowed [OF bad, of ln "([], {})"] Inr show ?thesis by simp
  qed
qed

lemma groups_prepare: "prepare groups_args groups_headerline = Inr groups_env"
  by (simp add: prepare_def groups_args_def groups_env_def groups_header_def groups_headerline_def
      andthen_def header_dict_def
      check_related_columns_def check_identifier_column_def make_array_column_name_to_array_index_def
      array_group_columns_def startswith_def
      header_line_step_def strip_def isspace_def lookup_identifier_column_def enumerate_eq_zip Let_def)

lemma groups_first_row_state:
  "foldE (process_row example_builtins groups_env) [groups_first_row] initial_state
   = Inr groups_first_state"
  by code_simp

lemma groups_identifier_column_index: "identifier_column_index groups_env = Some 0"
  by (simp add: groups_env_def)

lemma groups_cells:
  "set (column_index_to_column groups_env) = set (zip [0, 1, 2, 3, 4] groups_header)"
  "array_column_name_to_array_index groups_env =
     [''identifiers.type'' \<mapsto> 0, ''identifiers.value'' \<mapsto> 0, ''roles'' \<mapsto> 1]"
  by (simp_all add: groups_env_def)

lemma groups_space_handled:
  "space_handled groups_env groups_first_row = groups_first_row"
  "space_handled groups_env [''A1'', [], [], [], []] = [''A1'', [], [], [], []]"
  "space_handled groups_env [''A1'', [], ''TAX'', [], ''CUSTOMER''] = [''A1'', [], ''TAX'', [], ''CUSTOMER'']"
  "space_handled groups_env [''A1'', ''Acme'', ''TAX'', ''999'', []] = [''A1'', ''Acme'', ''TAX'', ''999'', []]"
  by code_simp+

text \<open>
  C5. A continuation row is a row whose identifier is the identifier of the row before it.
  When no array group has data on it, or two different array groups have, or a column that
  belongs to no array group and is not the identifier column is set, the reader fails with
  one of the three errors of a continuation line, which name the line. The rows before are
  rows that the reader accepts, and the row has as many fields as the header line; the
  cells are taken after the space handling, and the columns are those of the schema that
  the header line names.
\<close>

theorem continuation_row_rejected:
  assumes "prepare a headerline = Inr E"
    and "identifier_column_index E = Some i"
    and "foldE (process_row B E) before initial_state = Inr st"
    and "before \<noteq> []"
    and "length row = length headerline"
    and "space_handled E row ! i = space_handled E (last before) ! i"
    and "(\<forall>(j, c) \<in> set (column_index_to_column E).
            space_handled E row ! j \<noteq> [] \<longrightarrow>
            array_column_name_to_array_index E (column_name c) = None)
       \<or> (\<exists>j c g j' c' g'.
            (j, c) \<in> set (column_index_to_column E) \<and> space_handled E row ! j \<noteq> [] \<and>
            array_column_name_to_array_index E (column_name c) = Some g \<and>
            (j', c') \<in> set (column_index_to_column E) \<and> space_handled E row ! j' \<noteq> [] \<and>
            array_column_name_to_array_index E (column_name c') = Some g' \<and> g \<noteq> g')
       \<or> (\<exists>j c. (j, c) \<in> set (column_index_to_column E) \<and> space_handled E row ! j \<noteq> [] \<and>
            array_column_name_to_array_index E (column_name c) = None \<and> j \<noteq> i)"
  shows "\<exists>e. read_header_csv_with_reader B a (headerline # before @ row # after) = Inl e \<and>
           ((\<exists>n. e = NotAllowedInContinuation (length before + 2) n)
            \<or> e = OnlyOneArrayGroup (length before + 2) (map name (array_groups a))
            \<or> e = NoArrayGroup (length before + 2) (map name (array_groups a)))"
proof -
  note s = rows_state [OF assms(3) assms(2)]
  have n: "determine_newdest E st (line st + 1) (space_handled E row)
        = Inr (False, previous_identifier st, done_identifiers st)"
    using s assms(2,4,6) by (simp add: determine_newdest_def Let_def)
  have "(\<exists>n. check_continuation E (line st + 1) (space_handled E row)
                = Inl (NotAllowedInContinuation (line st + 1) n))
       \<or> check_continuation E (line st + 1) (space_handled E row)
            = Inl (OnlyOneArrayGroup (line st + 1) (map name (array_groups (args E))))
       \<or> check_continuation E (line st + 1) (space_handled E row)
            = Inl (NoArrayGroup (line st + 1) (map name (array_groups (args E))))"
    using assms(7) by (intro check_continuation_fails) (simp add: assms(2))
  then obtain e where e: "check_continuation E (line st + 1) (space_handled E row) = Inl e"
    and k: "(\<exists>n. e = NotAllowedInContinuation (line st + 1) n)
            \<or> e = OnlyOneArrayGroup (line st + 1) (map name (array_groups (args E)))
            \<or> e = NoArrayGroup (line st + 1) (map name (array_groups (args E)))"
    by blast
  have "process_row B E row st = Inl e"
    using n e
    by (simp add: process_row_related [OF assms(1) assms(5)] andthen_def continuation_def)
  then have "read_header_csv_with_reader B a (headerline # before @ row # after) = Inl e"
    by (rule read_rows_split [OF assms(1) assms(3)])
  with k s prepare_fields(1) [OF assms(1)] show ?thesis by simp
qed

theorem continuation_row_rejected_witness:
  "(\<exists>e. read_header_csv_with_reader example_builtins groups_args
          [groups_headerline, groups_first_row, [''A1'', [], [], [], []]] = Inl e \<and>
        ((\<exists>n. e = NotAllowedInContinuation 3 n) \<or> e = OnlyOneArrayGroup 3 [''identifiers'', ''roles'']
         \<or> e = NoArrayGroup 3 [''identifiers'', ''roles''])) \<and>
   (\<exists>e. read_header_csv_with_reader example_builtins groups_args
          [groups_headerline, groups_first_row, [''A1'', [], ''TAX'', [], ''CUSTOMER'']] = Inl e \<and>
        ((\<exists>n. e = NotAllowedInContinuation 3 n) \<or> e = OnlyOneArrayGroup 3 [''identifiers'', ''roles'']
         \<or> e = NoArrayGroup 3 [''identifiers'', ''roles''])) \<and>
   (\<exists>e. read_header_csv_with_reader example_builtins groups_args
          [groups_headerline, groups_first_row, [''A1'', ''Acme'', ''TAX'', ''999'', []]] = Inl e \<and>
        ((\<exists>n. e = NotAllowedInContinuation 3 n) \<or> e = OnlyOneArrayGroup 3 [''identifiers'', ''roles'']
         \<or> e = NoArrayGroup 3 [''identifiers'', ''roles'']))"
proof -
  note t = continuation_row_rejected [OF groups_prepare groups_identifier_column_index
      groups_first_row_state, where after = "[]"]
  have a: "\<forall>(j, c) \<in> set (column_index_to_column groups_env).
            space_handled groups_env [''A1'', [], [], [], []] ! j \<noteq> [] \<longrightarrow>
            array_column_name_to_array_index groups_env (column_name c) = None"
    by (simp add: groups_cells groups_space_handled groups_header_def)
  have b: "(2, groups_header ! 2) \<in> set (column_index_to_column groups_env) \<and>
           space_handled groups_env [''A1'', [], ''TAX'', [], ''CUSTOMER''] ! 2 \<noteq> [] \<and>
           array_column_name_to_array_index groups_env (column_name (groups_header ! 2)) = Some 0 \<and>
           (4, groups_header ! 4) \<in> set (column_index_to_column groups_env) \<and>
           space_handled groups_env [''A1'', [], ''TAX'', [], ''CUSTOMER''] ! 4 \<noteq> [] \<and>
           array_column_name_to_array_index groups_env (column_name (groups_header ! 4)) = Some 1 \<and>
           (0::nat) \<noteq> 1"
    by (simp add: groups_cells groups_space_handled groups_header_def)
  have c: "(1, groups_header ! 1) \<in> set (column_index_to_column groups_env) \<and>
           space_handled groups_env [''A1'', ''Acme'', ''TAX'', ''999'', []] ! 1 \<noteq> [] \<and>
           array_column_name_to_array_index groups_env (column_name (groups_header ! 1)) = None \<and>
           (1::nat) \<noteq> 0"
    by (simp add: groups_cells groups_space_handled groups_header_def)
  have b': "(\<forall>(j, c) \<in> set (column_index_to_column groups_env).
            space_handled groups_env [''A1'', [], ''TAX'', [], ''CUSTOMER''] ! j \<noteq> [] \<longrightarrow>
            array_column_name_to_array_index groups_env (column_name c) = None)
       \<or> (\<exists>j c g j' c' g'.
            (j, c) \<in> set (column_index_to_column groups_env) \<and> space_handled groups_env [''A1'', [], ''TAX'', [], ''CUSTOMER''] ! j \<noteq> [] \<and>
            array_column_name_to_array_index groups_env (column_name c) = Some g \<and>
            (j', c') \<in> set (column_index_to_column groups_env) \<and> space_handled groups_env [''A1'', [], ''TAX'', [], ''CUSTOMER''] ! j' \<noteq> [] \<and>
            array_column_name_to_array_index groups_env (column_name c') = Some g' \<and> g \<noteq> g')
       \<or> (\<exists>j c. (j, c) \<in> set (column_index_to_column groups_env) \<and> space_handled groups_env [''A1'', [], ''TAX'', [], ''CUSTOMER''] ! j \<noteq> [] \<and>
            array_column_name_to_array_index groups_env (column_name c) = None \<and> j \<noteq> 0)"
    using b by blast
  have c': "(\<forall>(j, c) \<in> set (column_index_to_column groups_env).
            space_handled groups_env [''A1'', ''Acme'', ''TAX'', ''999'', []] ! j \<noteq> [] \<longrightarrow>
            array_column_name_to_array_index groups_env (column_name c) = None)
       \<or> (\<exists>j c g j' c' g'.
            (j, c) \<in> set (column_index_to_column groups_env) \<and> space_handled groups_env [''A1'', ''Acme'', ''TAX'', ''999'', []] ! j \<noteq> [] \<and>
            array_column_name_to_array_index groups_env (column_name c) = Some g \<and>
            (j', c') \<in> set (column_index_to_column groups_env) \<and> space_handled groups_env [''A1'', ''Acme'', ''TAX'', ''999'', []] ! j' \<noteq> [] \<and>
            array_column_name_to_array_index groups_env (column_name c') = Some g' \<and> g \<noteq> g')
       \<or> (\<exists>j c. (j, c) \<in> set (column_index_to_column groups_env) \<and> space_handled groups_env [''A1'', ''Acme'', ''TAX'', ''999'', []] ! j \<noteq> [] \<and>
            array_column_name_to_array_index groups_env (column_name c) = None \<and> j \<noteq> 0)"
    using c by blast
  have n: "map name (array_groups groups_args) = [''identifiers'', ''roles'']"
    by (simp add: groups_args_def)
  have l: "length groups_first_row = 5" "length groups_headerline = 5" "groups_first_row ! 0 = ''A1''"
    by (simp_all add: groups_first_row_def groups_headerline_def)
  have 1: "\<exists>e. read_header_csv_with_reader example_builtins groups_args
          (groups_headerline # [groups_first_row] @ [''A1'', [], [], [], []] # []) = Inl e \<and>
        ((\<exists>n. e = NotAllowedInContinuation (length [groups_first_row] + 2) n)
         \<or> e = OnlyOneArrayGroup (length [groups_first_row] + 2) (map name (array_groups groups_args))
         \<or> e = NoArrayGroup (length [groups_first_row] + 2) (map name (array_groups groups_args)))"
    using a by (intro t) (simp_all add: groups_space_handled l)
  have 2: "\<exists>e. read_header_csv_with_reader example_builtins groups_args
          (groups_headerline # [groups_first_row] @ [''A1'', [], ''TAX'', [], ''CUSTOMER''] # []) = Inl e \<and>
        ((\<exists>n. e = NotAllowedInContinuation (length [groups_first_row] + 2) n)
         \<or> e = OnlyOneArrayGroup (length [groups_first_row] + 2) (map name (array_groups groups_args))
         \<or> e = NoArrayGroup (length [groups_first_row] + 2) (map name (array_groups groups_args)))"
    by (rule t [OF _ _ _ b']) (simp_all add: l groups_space_handled)
  have 3: "\<exists>e. read_header_csv_with_reader example_builtins groups_args
          (groups_headerline # [groups_first_row] @ [''A1'', ''Acme'', ''TAX'', ''999'', []] # []) = Inl e \<and>
        ((\<exists>n. e = NotAllowedInContinuation (length [groups_first_row] + 2) n)
         \<or> e = OnlyOneArrayGroup (length [groups_first_row] + 2) (map name (array_groups groups_args))
         \<or> e = NoArrayGroup (length [groups_first_row] + 2) (map name (array_groups groups_args)))"
    by (rule t [OF _ _ _ c']) (simp_all add: l groups_space_handled)
  from 1 2 3 show ?thesis by (simp add: n eval_nat_numeral)
qed

section \<open>The empty policy in the reader\<close>










end
